theory Spec2Isabelle
  imports Main
begin

section \<open>JavaScript values and strings\<close>

text \<open>
  The handlers exchange JSON values with their collaborators. A value is one of the
  JavaScript primitives, an array or an object; an object is kept as the list of its
  entries so that two response bodies are equal exactly when they serialise alike.
  Numbers are the integral ones: no handler computes with a fraction.
\<close>

datatype jsval =
    JUndefined
  | JNull
  | JBool bool
  | JNum int
  | JStr string
  | JArr "jsval list"
  | JObj "(string \<times> jsval) list"

text \<open>What an \<^verbatim>\<open>if (v)\<close> or a \<^verbatim>\<open>v && ...\<close> takes as true.\<close>

fun truthy :: "jsval \<Rightarrow> bool" where
  "truthy JUndefined = False"
| "truthy JNull = False"
| "truthy (JBool b) = b"
| "truthy (JNum n) = (n \<noteq> 0)"
| "truthy (JStr s) = (s \<noteq> [])"
| "truthy (JArr xs) = True"
| "truthy (JObj kvs) = True"

text \<open>A thrown or rejected \<^verbatim>\<open>Error\<close>, read through its \<^verbatim>\<open>message\<close>.\<close>

datatype js_error = Error (message: string)

subsection \<open>Numbers as decimal strings\<close>

definition digit_char :: "nat \<Rightarrow> char" where
  "digit_char d = char_of (48 + d)"

definition is_digit :: "char \<Rightarrow> bool" where
  "is_digit c = (48 \<le> (of_char c :: nat) \<and> (of_char c :: nat) \<le> 57)"

definition digit_val :: "char \<Rightarrow> nat" where
  "digit_val c = of_char c - 48"

text \<open>\<^verbatim>\<open>String(n)\<close> and \<^verbatim>\<open>n.toString()\<close> of a non-negative integer.\<close>

function dec :: "nat \<Rightarrow> string" where
  "dec n = (if n < 10 then [digit_char n] else dec (n div 10) @ [digit_char (n mod 10)])"
  by pat_completeness auto
termination
  by (relation "measure id") auto

declare dec.simps [simp del]

definition show_int :: "int \<Rightarrow> string" where
  "show_int i = (if i < 0 then CHR ''-'' # dec (nat (- i)) else dec (nat i))"

text \<open>\<^verbatim>\<open>s.slice(-k)\<close>: the last \<open>k\<close> characters, the whole string when it is shorter.\<close>

definition slice_last :: "nat \<Rightarrow> string \<Rightarrow> string" where
  "slice_last k s = drop (length s - k) s"

text \<open>\<^verbatim>\<open>s.padStart(n, c)\<close> for a one-character pad.\<close>

definition padStart :: "nat \<Rightarrow> char \<Rightarrow> string \<Rightarrow> string" where
  "padStart n c s = replicate (n - length s) c @ s"

text \<open>
  \<^verbatim>\<open>parseInt\<close> on a string of decimal digits (the only strings it is applied to here:
  a slice of \<open>dec\<close>), read from the left as the base-10 number.
\<close>

definition parseInt :: "string \<Rightarrow> nat" where
  "parseInt s = foldl (\<lambda>a c. 10 * a + digit_val c) 0 s"

section \<open>The payment gateway client (services/zalopay.ts)\<close>

record ZaloClient =
  app_id :: string
  key1 :: string
  key2 :: string
  embed_data :: jsval

record ZaloPay =
  client :: ZaloClient
  orderID :: nat

record ZaloResult =
  return_code :: int
  return_message :: string

record OrderItem =
  itemprice :: int
  itemquantity :: int

record ZaloOrder =
  o_app_id :: string
  o_app_trans_id :: string
  o_app_user :: string
  o_app_time :: nat
  o_item :: string
  o_embed_data :: string
  o_amount :: int
  o_description :: string
  o_bank_code :: string
  o_mac :: string

record js_date =
  getFullYear :: nat
  getMonth :: nat
  getDate :: nat

text \<open>
  What one call reads from outside the class: the keyed hash of Node's \<^verbatim>\<open>crypto\<close>
  (\<open>createHmac key data\<close> is \<^verbatim>\<open>createHmac("sha256", key).update(data).digest("hex")\<close>,
  the hex digest or the error it throws), \<^verbatim>\<open>JSON.stringify\<close> on the item list and on
  the embedded data, the clock (\<^verbatim>\<open>new Date()\<close> and \<^verbatim>\<open>Date.now()\<close>), and the gateway's
  answer to the posted order (the response's \<^verbatim>\<open>data\<close>, or the rejection of the call).
\<close>

record zalo_env =
  createHmac :: "string \<Rightarrow> string \<Rightarrow> js_error + string"
  stringify_items :: "OrderItem list \<Rightarrow> string"
  stringify_embed :: "jsval \<Rightarrow> string"
  new_Date :: js_date
  Date_now :: nat
  axios_post :: "ZaloOrder \<Rightarrow> js_error + (string \<rightharpoonup> jsval)"

text \<open>
  The constructor, from the three environment variables and \<^verbatim>\<open>Date.now()\<close>: the counter
  starts at the last six digits of the clock.
\<close>

definition ZaloPay_new :: "string \<Rightarrow> string \<Rightarrow> string \<Rightarrow> nat \<Rightarrow> ZaloPay" where
  "ZaloPay_new ZALO_APP_ID ZALO_KEY1 ZALO_KEY2 t =
     \<lparr> client =
         \<lparr> app_id = ZALO_APP_ID, key1 = ZALO_KEY1, key2 = ZALO_KEY2,
           embed_data = JObj [(''redirectUrl'', JStr ''https://open.hustmusik.live'')] \<rparr>,
       orderID = parseInt (slice_last 6 (dec t)) \<rparr>"

definition trans_id :: "js_date \<Rightarrow> nat \<Rightarrow> string" where
  "trans_id d n =
     slice_last 2 (dec (getFullYear d))
     @ padStart 2 (CHR ''0'') (dec (getMonth d + 1))
     @ padStart 2 (CHR ''0'') (dec (getDate d))
     @ ''_'' @ dec n"

definition order_amount :: "OrderItem list \<Rightarrow> int" where
  "order_amount items = foldl (\<lambda>acc it. acc + itemprice it * itemquantity it) 0 items"

text \<open>The order as built before it is signed (\<open>o_mac\<close> still empty).\<close>

definition build_order :: "zalo_env \<Rightarrow> ZaloPay \<Rightarrow> string \<Rightarrow> OrderItem list \<Rightarrow> ZaloOrder" where
  "build_order e z user_id items =
     \<lparr> o_app_id = app_id (client z),
       o_app_trans_id = trans_id (new_Date e) (orderID z),
       o_app_user = user_id,
       o_app_time = Date_now e,
       o_item = stringify_items e items,
       o_embed_data = stringify_embed e (embed_data (client z)),
       o_amount = order_amount items,
       o_description = ''Hust Musik Premium - Payment for order '' @ dec (orderID z),
       o_bank_code = ''zalopayapp'',
       o_mac = [] \<rparr>"

definition mac_input :: "ZaloPay \<Rightarrow> ZaloOrder \<Rightarrow> string" where
  "mac_input z ord =
     app_id (client z) @ ''|'' @ o_app_trans_id ord @ ''|'' @ o_app_user ord @ ''|''
     @ show_int (o_amount ord) @ ''|'' @ dec (o_app_time ord) @ ''|''
     @ o_embed_data ord @ ''|'' @ o_item ord"

text \<open>
  \<open>createOrder\<close> returns the outcome of the call and the object's state after it. The
  counter is incremented first; an error thrown by the hash or a rejected post ends the
  call with that error (\<open>Inl\<close>), the state staying as the increment left it.
\<close>

definition createOrder ::
  "zalo_env \<Rightarrow> string \<Rightarrow> OrderItem list \<Rightarrow> ZaloPay \<Rightarrow> (js_error + (string \<rightharpoonup> jsval)) \<times> ZaloPay" where
  "createOrder e user_id items z =
     (let z' = z\<lparr> orderID := orderID z + 1 \<rparr>;
          ord = build_order e z' user_id items
      in case createHmac e (key1 (client z')) (mac_input z' ord) of
           Inl err \<Rightarrow> (Inl err, z')
         | Inr m \<Rightarrow>
             (case axios_post e (ord\<lparr> o_mac := m \<rparr>) of
                Inl err \<Rightarrow> (Inl err, z')
              | Inr res_data \<Rightarrow>
                  (Inr (res_data(''app_trans_id'' \<mapsto> JStr (o_app_trans_id ord))), z')))"

text \<open>
  \<open>receiveOrderCallback\<close>: the \<^verbatim>\<open>try\<close> block is the \<open>Inr\<close> branch, the \<^verbatim>\<open>catch\<close> the
  \<open>Inl\<close> one.
\<close>

definition receiveOrderCallback :: "zalo_env \<Rightarrow> ZaloPay \<Rightarrow> string \<Rightarrow> string \<Rightarrow> ZaloResult" where
  "receiveOrderCallback e z dataStr reqMac =
     (case createHmac e (key2 (client z)) dataStr of
        Inr mac \<Rightarrow>
          if reqMac \<noteq> mac
          then \<lparr> return_code = - 1, return_message = ''mac not equal'' \<rparr>
          else \<lparr> return_code = 1, return_message = ''success'' \<rparr>
      | Inl err \<Rightarrow> \<lparr> return_code = 0, return_message = message err \<rparr>)"

text \<open>
  The calls one process makes, in the order in which they are entered. The part of
  \<open>createOrder\<close> before its only \<^verbatim>\<open>await\<close> runs without interruption, so each call
  finds the counter as the call before it left it.
\<close>

fun createOrders ::
  "(zalo_env \<times> string \<times> OrderItem list) list \<Rightarrow> ZaloPay \<Rightarrow>
   (js_error + (string \<rightharpoonup> jsval)) list \<times> ZaloPay" where
  "createOrders [] z = ([], z)"
| "createOrders ((e, user_id, items) # cs) z =
     (case createOrder e user_id items z of
        (r, z') \<Rightarrow> (case createOrders cs z' of (rs, z'') \<Rightarrow> (r # rs, z'')))"

text \<open>
  The transaction id pattern \<^verbatim>\<open>YYMMDD_<sequence>\<close> at a date: the last two digits of the
  year, the month of the year (a \<^verbatim>\<open>Date\<close> counts months from 0) and the day of the
  month, each in two digits, then an underscore and the sequence number in decimal;
  \<open>sequence_of\<close> reads the number back. A \<^verbatim>\<open>Date\<close> has its month in 0..11 and its day
  in 1..31; the two-character year needs a year of at least two digits.
\<close>

definition two_digits :: "nat \<Rightarrow> string" where
  "two_digits k = [digit_char (k div 10), digit_char (k mod 10)]"

definition valid_date :: "js_date \<Rightarrow> bool" where
  "valid_date d = (10 \<le> getFullYear d \<and> getMonth d \<le> 11 \<and> 1 \<le> getDate d \<and> getDate d \<le> 31)"

definition date_prefix :: "js_date \<Rightarrow> string" where
  "date_prefix d =
     two_digits (getFullYear d mod 100) @ two_digits (getMonth d + 1) @ two_digits (getDate d)"

definition is_trans_id :: "js_date \<Rightarrow> string \<Rightarrow> bool" where
  "is_trans_id d s =
     (7 < length s \<and> take 6 s = date_prefix d \<and> list_all is_digit (take 6 s)
      \<and> s ! 6 = CHR ''_'' \<and> list_all is_digit (drop 7 s))"

definition sequence_of :: "string \<Rightarrow> nat" where
  "sequence_of s = parseInt (drop 7 s)"

text \<open>An example process: a stand-in for the hash, and a gateway that accepts every order.\<close>

definition shop :: ZaloPay where
  "shop = ZaloPay_new ''2553'' ''k1'' ''k2'' 1793456123456"

definition shop_env :: "js_date \<Rightarrow> nat \<Rightarrow> zalo_env" where
  "shop_env d t =
     \<lparr> createHmac = (\<lambda>k s. Inr (k @ s)),
       stringify_items = (\<lambda>items. ''[]''),
       stringify_embed = (\<lambda>v. ''{}''),
       new_Date = d,
       Date_now = t,
       axios_post = (\<lambda>ord. Inr [''return_code'' \<mapsto> JNum 1]) \<rparr>"

definition nov_2 :: js_date where
  "nov_2 = \<lparr> getFullYear = 2026, getMonth = 10, getDate = 2 \<rparr>"

definition nov_3 :: js_date where
  "nov_3 = \<lparr> getFullYear = 2026, getMonth = 10, getDate = 3 \<rparr>"

definition two_orders :: "(zalo_env \<times> string \<times> OrderItem list) list" where
  "two_orders = [(shop_env nov_2 1, ''alice'', []), (shop_env nov_3 2, ''bob'', [])]"

section \<open>The HTTP handlers' collaborators\<close>

subsection \<open>Requests and responses\<close>

text \<open>
  The part of an Express request the handlers read. \<open>query_page\<close> and \<open>query_limit\<close>
  are \<^verbatim>\<open>Number(req.query.page)\<close> and \<^verbatim>\<open>Number(req.query.limit)\<close>, \<open>None\<close> standing for
  \<^verbatim>\<open>NaN\<close> (the parameter is absent or not a number). \<open>req_body\<close> lists the entries of the
  parsed request body, \<open>req_file\<close> is the uploaded attachment when there is one.
\<close>

record request =
  params_term :: string
  params_id :: string
  query_page :: "int option"
  query_limit :: "int option"
  authorization :: "string option"
  req_body :: "(string \<times> jsval) list"
  req_file :: "jsval option"

datatype response = Response (status: nat) (json: jsval)

text \<open>
  A handler either sends a response or its promise rejects with an error no handler
  code catches, in which case the handler sends nothing.
\<close>

datatype reply = Sent response | Rejected js_error

subsection \<open>The record store\<close>

datatype filter =
    TextSearch string string
  | Eq string string
  | In string "string list"
  | Match "(string \<times> string) list"

datatype verb =
    SelectRows
  | InsertRow "(string \<times> jsval) list"
  | UpdateRows "(string \<times> jsval) list"
  | DeleteRows

text \<open>One chain of the query builder, \<^verbatim>\<open>supabase.from(t)...\<close>, as the request it makes.\<close>

record query =
  q_table :: string
  q_verb :: verb
  q_columns :: string
  q_filters :: "filter list"
  q_range :: "(int \<times> int) option"
  q_single :: bool

text \<open>The \<^verbatim>\<open>{ data, error }\<close> a query resolves to.\<close>

datatype q_result = QResult (data: jsval) (error: "js_error option")

subsection \<open>Effects\<close>

text \<open>Every call a handler makes to a collaborator, in the order the calls are made.\<close>

datatype effect =
    RedisGet string
  | RedisSet string jsval nat
  | Db query
  | BlobDelete string
  | BlobPresign string nat
  | CloudinaryUpload jsval string jsval
  | CloudinaryDelete string string

text \<open>
  What a handler reads from outside: the role resolver \<^verbatim>\<open>utils.enforceRole\<close>, the record
  store's answer to each query (the resolved \<^verbatim>\<open>{ data, error }\<close>, or the rejection of the
  awaited promise), the cache store's clock in seconds and the error its \<^verbatim>\<open>get\<close> or
  \<^verbatim>\<open>set\<close> rejects with while the cache store is failing, \<^verbatim>\<open>JSON.stringify\<close>, the blob
  store's credential issuance, and the outcomes of the calls that are not awaited
  (blob deletion, asset upload and deletion).
\<close>

record http_env =
  enforceRole :: "string option \<Rightarrow> string"
  supabase :: "query \<Rightarrow> js_error + q_result"
  redis_clock :: nat
  redis_get_error :: "js_error option"
  redis_set_error :: "js_error option"
  JSON_stringify :: "jsval \<Rightarrow> string"
  backblaze_presign :: "string \<Rightarrow> nat \<Rightarrow> js_error + string"
  backblaze_deleteObject :: "string \<Rightarrow> js_error option"
  cloudinary_upload :: "jsval \<Rightarrow> string \<Rightarrow> jsval \<Rightarrow> js_error option"
  cloudinary_delete :: "string \<Rightarrow> string \<Rightarrow> js_error option"

subsection \<open>The cache store\<close>

text \<open>
  The cache holds, for each key, the value set and the time at which it expires, in
  seconds of the cache store's clock.
\<close>

type_synonym cache = "string \<rightharpoonup> (jsval \<times> nat)"

text \<open>
  Modelled from the spec: the cache client (services/redis) is not among the sources.
  \<^verbatim>\<open>get\<close> of a key-value store with expiry: it resolves to the value as it was set
  until the entry expires, and to \<^verbatim>\<open>null\<close> for an absent or expired key; while the
  cache store is failing it rejects.
\<close>

definition redis_get :: "http_env \<Rightarrow> cache \<Rightarrow> string \<Rightarrow> js_error + jsval" where
  "redis_get e c k =
     (case redis_get_error e of
        Some err \<Rightarrow> Inl err
      | None \<Rightarrow>
          (case c k of
             None \<Rightarrow> Inr JNull
           | Some (v, expiry) \<Rightarrow> if redis_clock e < expiry then Inr v else Inr JNull))"

text \<open>
  Modelled from the spec: the cache client (services/redis) is not among the sources.
  \<^verbatim>\<open>set\<close> with \<^verbatim>\<open>{ ex: n }\<close>: the entry replaces any entry of the key and expires
  \<open>n\<close> seconds after it is set; while the cache store is failing nothing is stored.
\<close>

definition redis_set :: "http_env \<Rightarrow> cache \<Rightarrow> string \<Rightarrow> jsval \<Rightarrow> nat \<Rightarrow> cache" where
  "redis_set e c k v ex =
     (case redis_set_error e of
        Some err \<Rightarrow> c
      | None \<Rightarrow> c(k \<mapsto> (v, redis_clock e + ex)))"

subsection \<open>JavaScript helpers\<close>

text \<open>\<^verbatim>\<open>Number(x) || d\<close>: the default replaces \<^verbatim>\<open>NaN\<close> and \<open>0\<close>.\<close>

definition number_or :: "int option \<Rightarrow> int \<Rightarrow> int" where
  "number_or v d = (case v of None \<Rightarrow> d | Some n \<Rightarrow> if n = 0 then d else n)"

text \<open>
  \<^verbatim>\<open>const { k } = req.body\<close>: the entry's value, \<^verbatim>\<open>undefined\<close> when the body has no
  such entry.
\<close>

definition field :: "(string \<times> jsval) list \<Rightarrow> string \<Rightarrow> jsval" where
  "field b k = (case map_of b k of None \<Rightarrow> JUndefined | Some v \<Rightarrow> v)"

text \<open>
  \<^verbatim>\<open>o.k\<close>: a \<^verbatim>\<open>TypeError\<close> on \<^verbatim>\<open>null\<close> and \<^verbatim>\<open>undefined\<close>, the entry of an object,
  \<^verbatim>\<open>undefined\<close> on anything else.
\<close>

fun get_prop :: "jsval \<Rightarrow> string \<Rightarrow> js_error + jsval" where
  "get_prop JUndefined k = Inl (Error (''Cannot read properties of undefined (reading '' @ k @ '')''))"
| "get_prop JNull k = Inl (Error (''Cannot read properties of null (reading '' @ k @ '')''))"
| "get_prop (JObj kvs) k = Inr (field kvs k)"
| "get_prop v k = Inr JUndefined"

text \<open>\<^verbatim>\<open>...(v && { k: v })\<close>: the entry when the value is truthy, nothing otherwise.\<close>

definition spread_if :: "string \<Rightarrow> jsval \<Rightarrow> (string \<times> jsval) list" where
  "spread_if k v = (if truthy v then [(k, v)] else [])"

fun join_comma :: "string list \<Rightarrow> string" where
  "join_comma [] = []"
| "join_comma [s] = s"
| "join_comma (s # t # ss) = s @ '','' @ join_comma (t # ss)"

text \<open>The string a value becomes inside a template literal or under \<^verbatim>\<open>+\<close> with a string.\<close>

fun toString :: "jsval \<Rightarrow> string" where
  "toString JUndefined = ''undefined''"
| "toString JNull = ''null''"
| "toString (JBool b) = (if b then ''true'' else ''false'')"
| "toString (JNum n) = show_int n"
| "toString (JStr s) = s"
| "toString (JArr xs) =
     join_comma (map (\<lambda>x. if x = JUndefined \<or> x = JNull then [] else toString x) xs)"
| "toString (JObj kvs) = ''[object Object]''"

text \<open>\<^verbatim>\<open>xs.filter(Boolean)\<close> on a list of errors, each an object or \<^verbatim>\<open>null\<close>.\<close>

fun filter_Boolean :: "'a option list \<Rightarrow> 'a list" where
  "filter_Boolean [] = []"
| "filter_Boolean (None # xs) = filter_Boolean xs"
| "filter_Boolean (Some x # xs) = x # filter_Boolean xs"

text \<open>
  \<^verbatim>\<open>await Promise.all(ps)\<close>: the list of the resolved values, or a rejection. The queries
  run concurrently and the order in which they settle is not modelled: of several
  rejections the one reported is the first in the order of the array.
\<close>

fun promise_all :: "('e + 'a) list \<Rightarrow> 'e + 'a list" where
  "promise_all [] = Inr []"
| "promise_all (Inl err # ps) = Inl err"
| "promise_all (Inr x # ps) = (case promise_all ps of Inl err \<Rightarrow> Inl err | Inr xs \<Rightarrow> Inr (x # xs))"

section \<open>The search handlers\<close>

text \<open>
  Every search handler opens with the same block: unless the resolved role is \<^verbatim>\<open>"Admin"\<close>
  it awaits \<^verbatim>\<open>redis.get(key)\<close> and, on a truthy value, answers 200 with that value and
  returns. The await stands outside any \<^verbatim>\<open>try\<close>, so a rejected \<^verbatim>\<open>get\<close> rejects the
  handler. \<open>cache_read\<close> is the read with its early return (\<open>Some\<close> is the handler's
  final reply, \<open>None\<close> lets it go on), \<open>cache_phase\<close> the block with the role test.
\<close>

definition cache_read :: "http_env \<Rightarrow> cache \<Rightarrow> string \<Rightarrow> reply option \<times> effect list" where
  "cache_read e c k =
     (case redis_get e c k of
        Inl err \<Rightarrow> (Some (Rejected err), [RedisGet k])
      | Inr v \<Rightarrow>
          if truthy v then (Some (Sent (Response 200 v)), [RedisGet k])
          else (None, [RedisGet k]))"

definition cache_phase :: "http_env \<Rightarrow> cache \<Rightarrow> string \<Rightarrow> string \<Rightarrow> reply option \<times> effect list" where
  "cache_phase e c role k = (if role \<noteq> ''Admin'' then cache_read e c k else (None, []))"

definition text_query ::
  "string \<Rightarrow> string \<Rightarrow> filter list \<Rightarrow> string \<Rightarrow> string \<Rightarrow> int \<Rightarrow> int \<Rightarrow> query" where
  "text_query tbl cols pre col s lo hi =
     \<lparr> q_table = tbl, q_verb = SelectRows, q_columns = cols,
       q_filters = pre @ [TextSearch col s], q_range = Some (lo, hi), q_single = False \<rparr>"

definition songs_query :: "string \<Rightarrow> int \<Rightarrow> int \<Rightarrow> query" where
  "songs_query = text_query ''songs'' ''id, title, thumbnailurl, duration'' [] ''title''"

definition artists_query :: "string \<Rightarrow> int \<Rightarrow> int \<Rightarrow> query" where
  "artists_query = text_query ''artists'' ''id, name, avatarurl'' [] ''name''"

definition albums_query :: "string \<Rightarrow> int \<Rightarrow> int \<Rightarrow> query" where
  "albums_query =
     text_query ''playlists'' ''id, title, thumbnailurl, user: profiles (username)''
       [In ''type'' [''Album'', ''EP'', ''Single'']] ''title''"

definition playlists_query :: "string \<Rightarrow> int \<Rightarrow> int \<Rightarrow> query" where
  "playlists_query =
     text_query ''playlists'' ''id, title, thumbnailurl, user: profiles (username)''
       [Eq ''type'' ''Playlist''] ''title''"

definition users_query :: "string \<Rightarrow> int \<Rightarrow> int \<Rightarrow> query" where
  "users_query = text_query ''profiles'' ''id, username, avatarurl'' [] ''username''"

text \<open>The five queries of the default search, in the order of the array.\<close>

definition default_queries :: "string \<Rightarrow> query list" where
  "default_queries s =
     [songs_query s 0 19, artists_query s 0 29, albums_query s 0 29,
      playlists_query s 0 29, users_query s 0 29]"

definition default_payload :: "q_result list \<Rightarrow> jsval" where
  "default_payload rs =
     JObj [(''data'',
       JObj [(''songs'', data (rs ! 0)), (''artists'', data (rs ! 1)), (''albums'', data (rs ! 2)),
             (''playlists'', data (rs ! 3)), (''users'', data (rs ! 4))])]"

text \<open>
  \<open>searchDefault\<close>. A rejection inside the \<^verbatim>\<open>try\<close> is answered by the \<^verbatim>\<open>catch\<close> with
  \<^verbatim>\<open>{ error: error }\<close>; the caught value is an \<^verbatim>\<open>Error\<close>, whose JSON is the empty object.
  \<^verbatim>\<open>redis.set\<close> is not awaited: the handler's reply does not wait for it, and the entry
  is taken to be stored by the time the next request is handled.
\<close>

definition searchDefault :: "http_env \<Rightarrow> request \<Rightarrow> cache \<Rightarrow> reply \<times> cache \<times> effect list" where
  "searchDefault e req c =
     (let s = params_term req;
          k = ''searches?term='' @ s;
          role = enforceRole e (authorization req)
      in case cache_phase e c role k of
           (Some r, log) \<Rightarrow> (r, c, log)
         | (None, log) \<Rightarrow>
             (let qs = default_queries s; log' = log @ map Db qs
              in case promise_all (map (supabase e) qs) of
                   Inl err \<Rightarrow> (Sent (Response 500 (JObj [(''error'', JObj [])])), c, log')
                 | Inr rs \<Rightarrow>
                     (let errors = filter_Boolean (map error rs)
                      in if length errors \<noteq> 0
                         then (Sent (Response 500
                                 (JObj [(''error'', JArr (map (\<lambda>x. JStr (message x)) errors))])),
                               c, log')
                         else if role \<noteq> ''Admin''
                         then (Sent (Response 200 (default_payload rs)),
                               redis_set e c k (default_payload rs) 300,
                               log' @ [RedisSet k (default_payload rs) 300])
                         else (Sent (Response 200 (default_payload rs)), c, log'))))"

text \<open>
  The five per-category handlers are one body with three things changed: the category
  name in the cache key, the default limit, and the query. \<open>search_category\<close> is that
  body; each handler is it at its own three values.
\<close>

definition category_key :: "string \<Rightarrow> string \<Rightarrow> int \<Rightarrow> int \<Rightarrow> string" where
  "category_key cat s page limit =
     ''searches?cat='' @ cat @ ''&term='' @ s @ ''&page='' @ show_int page
     @ ''&limit='' @ show_int limit"

definition search_category ::
  "string \<Rightarrow> int \<Rightarrow> (string \<Rightarrow> int \<Rightarrow> int \<Rightarrow> query) \<Rightarrow>
   http_env \<Rightarrow> request \<Rightarrow> cache \<Rightarrow> reply \<times> cache \<times> effect list" where
  "search_category cat default_limit mk e req c =
     (let s = params_term req;
          page = number_or (query_page req) 1;
          limit = number_or (query_limit req) default_limit;
          k = category_key cat s page limit;
          role = enforceRole e (authorization req)
      in case cache_phase e c role k of
           (Some r, log) \<Rightarrow> (r, c, log)
         | (None, log) \<Rightarrow>
             (let q = mk s ((page - 1) * limit) (page * limit - 1); log' = log @ [Db q]
              in case supabase e q of
                   Inl err \<Rightarrow> (Rejected err, c, log')
                 | Inr r \<Rightarrow>
                     (case error r of
                        Some err \<Rightarrow>
                          (Sent (Response 500 (JObj [(''error'', JStr (message err))])), c, log')
                      | None \<Rightarrow>
                          if role \<noteq> ''Admin''
                          then (Sent (Response 200 (JObj [(''data'', data r)])),
                                redis_set e c k (data r) 300,
                                log' @ [RedisSet k (data r) 300])
                          else (Sent (Response 200 (JObj [(''data'', data r)])), c, log'))))"

definition searchSongs :: "http_env \<Rightarrow> request \<Rightarrow> cache \<Rightarrow> reply \<times> cache \<times> effect list" where
  "searchSongs = search_category ''songs'' 20 songs_query"

definition searchArtists :: "http_env \<Rightarrow> request \<Rightarrow> cache \<Rightarrow> reply \<times> cache \<times> effect list" where
  "searchArtists = search_category ''artists'' 30 artists_query"

definition searchUsers :: "http_env \<Rightarrow> request \<Rightarrow> cache \<Rightarrow> reply \<times> cache \<times> effect list" where
  "searchUsers = search_category ''users'' 30 users_query"

definition searchPlaylists :: "http_env \<Rightarrow> request \<Rightarrow> cache \<Rightarrow> reply \<times> cache \<times> effect list" where
  "searchPlaylists = search_category ''playlists'' 30 playlists_query"

definition searchAlbums :: "http_env \<Rightarrow> request \<Rightarrow> cache \<Rightarrow> reply \<times> cache \<times> effect list" where
  "searchAlbums = search_category ''albums'' 30 albums_query"

section \<open>The song and artist handlers\<close>

definition error_500 :: "js_error \<Rightarrow> reply" where
  "error_500 err = Sent (Response 500 (JObj [(''error'', JStr (message err))]))"

definition getAllSongs :: "http_env \<Rightarrow> request \<Rightarrow> cache \<Rightarrow> reply \<times> cache \<times> effect list" where
  "getAllSongs e req c =
     (let page = number_or (query_page req) 1;
          limit = number_or (query_limit req) 10;
          k = ''songs?page='' @ show_int page @ ''&limit='' @ show_int limit
      in case cache_read e c k of
           (Some r, log) \<Rightarrow> (r, c, log)
         | (None, log) \<Rightarrow>
             (let q = \<lparr> q_table = ''songs'', q_verb = SelectRows, q_columns = [], q_filters = [],
                        q_range = Some ((page - 1) * limit, page * limit - 1), q_single = False \<rparr>;
                  log' = log @ [Db q]
              in case supabase e q of
                   Inl err \<Rightarrow> (Rejected err, c, log')
                 | Inr r \<Rightarrow>
                     (case error r of
                        Some err \<Rightarrow> (error_500 err, c, log')
                      | None \<Rightarrow>
                          (Sent (Response 200 (JObj [(''data'', data r)])),
                           redis_set e c k (JStr (JSON_stringify e (data r))) 300,
                           log' @ [RedisSet k (JStr (JSON_stringify e (data r))) 300]))))"

definition getSongByID :: "http_env \<Rightarrow> request \<Rightarrow> cache \<Rightarrow> reply \<times> cache \<times> effect list" where
  "getSongByID e req c =
     (let k = ''songs?id='' @ params_id req
      in case cache_read e c k of
           (Some r, log) \<Rightarrow> (r, c, log)
         | (None, log) \<Rightarrow>
             (let q = \<lparr> q_table = ''songs'', q_verb = SelectRows, q_columns = [],
                        q_filters = [Eq ''id'' (params_id req)], q_range = None, q_single = True \<rparr>;
                  log' = log @ [Db q]
              in case supabase e q of
                   Inl err \<Rightarrow> (Rejected err, c, log')
                 | Inr r \<Rightarrow>
                     (case error r of
                        Some err \<Rightarrow> (error_500 err, c, log')
                      | None \<Rightarrow>
                          (Sent (Response 200 (JObj [(''data'', data r)])),
                           redis_set e c k (JStr (JSON_stringify e (data r))) 300,
                           log' @ [RedisSet k (JStr (JSON_stringify e (data r))) 300]))))"

text \<open>
  The object key of a song's audio, as both pre-signed URL handlers build it from the
  row of the song's Primary artist link.
\<close>

definition primary_link_query :: "string \<Rightarrow> query" where
  "primary_link_query i =
     \<lparr> q_table = ''artistssongs'', q_verb = SelectRows,
       q_columns = ''artist: artists (name), song: songs (title)'',
       q_filters = [Match [(''relation'', ''Primary''), (''songid'', i)]],
       q_range = None, q_single = True \<rparr>"

definition presigned_url :: "nat \<Rightarrow> http_env \<Rightarrow> request \<Rightarrow> reply \<times> effect list" where
  "presigned_url seconds e req =
     (let q = primary_link_query (params_id req)
      in case supabase e q of
           Inl err \<Rightarrow> (Rejected err, [Db q])
         | Inr r \<Rightarrow>
             (case error r of
                Some err \<Rightarrow> (error_500 err, [Db q])
              | None \<Rightarrow>
                  (case get_prop (data r) ''song'' of
                     Inl err \<Rightarrow> (Rejected err, [Db q])
                   | Inr song \<Rightarrow>
                       if \<not> truthy song
                       then (Sent (Response 404
                               (JObj [(''error'', JStr ''Artist or Song does not exist'')])), [Db q])
                       else
                         (case get_prop (data r) ''artist'' of
                            Inl err \<Rightarrow> (Rejected err, [Db q])
                          | Inr artist \<Rightarrow>
                              if \<not> truthy artist
                              then (Sent (Response 404
                                      (JObj [(''error'', JStr ''Artist or Song does not exist'')])),
                                    [Db q])
                              else
                                (case (get_prop artist ''name'', get_prop song ''title'') of
                                   (Inr name, Inr title) \<Rightarrow>
                                     (let fileName = toString name @ ''/'' @ toString title @ ''.mp3''
                                      in case backblaze_presign e fileName seconds of
                                           Inl err \<Rightarrow>
                                             (Sent (Response 500 (JObj [(''error'',
                                                JStr (''Error generating pre-signed URL: Error: ''
                                                      @ message err))])),
                                              [Db q, BlobPresign fileName seconds])
                                         | Inr url \<Rightarrow>
                                             (Sent (Response 200 (JObj [(''url'', JStr url)])),
                                              [Db q, BlobPresign fileName seconds]))
                                 | (Inl err, _) \<Rightarrow> (Rejected err, [Db q])
                                 | (_, Inl err) \<Rightarrow> (Rejected err, [Db q]))))))"

definition generatePresignedDownloadURL :: "http_env \<Rightarrow> request \<Rightarrow> reply \<times> effect list" where
  "generatePresignedDownloadURL = presigned_url 1800"

definition generatePresignedUploadURL :: "http_env \<Rightarrow> request \<Rightarrow> reply \<times> effect list" where
  "generatePresignedUploadURL = presigned_url 900"

text \<open>
  The update and insert payloads: the object literals of the handlers, entry by entry.
  \<open>updateArtist\<close> and \<open>addSong\<close> write their first entry without a guard.
\<close>

definition updateArtist_payload :: "(string \<times> jsval) list \<Rightarrow> (string \<times> jsval) list" where
  "updateArtist_payload b =
     [(''name'', field b ''name'')]
     @ spread_if ''description'' (field b ''description'')
     @ spread_if ''avatarurl'' (field b ''avatarurl'')
     @ spread_if ''country'' (field b ''country'')"

definition updateSong_payload :: "(string \<times> jsval) list \<Rightarrow> (string \<times> jsval) list" where
  "updateSong_payload b =
     spread_if ''title'' (field b ''title'')
     @ spread_if ''description'' (field b ''description'')
     @ spread_if ''thumbnailurl'' (field b ''thumbnailurl'')
     @ spread_if ''duration'' (field b ''duration'')
     @ spread_if ''releasedate'' (field b ''releasedate'')
     @ spread_if ''genre'' (field b ''genre'')
     @ spread_if ''views'' (field b ''views'')"

definition addSong_payload :: "(string \<times> jsval) list \<Rightarrow> (string \<times> jsval) list" where
  "addSong_payload b =
     [(''title'', field b ''title'')]
     @ spread_if ''description'' (field b ''description'')
     @ spread_if ''thumbnailurl'' (field b ''thumbnailurl'')
     @ spread_if ''duration'' (field b ''duration'')
     @ spread_if ''releasedate'' (field b ''releasedate'')
     @ spread_if ''genre'' (field b ''genre'')"

definition update_query :: "string \<Rightarrow> (string \<times> jsval) list \<Rightarrow> string \<Rightarrow> query" where
  "update_query tbl payload i =
     \<lparr> q_table = tbl, q_verb = UpdateRows payload, q_columns = [],
       q_filters = [Eq ''id'' i], q_range = None, q_single = False \<rparr>"

text \<open>\<^verbatim>\<open>if (req.file) cloudinary.upload(req.file, kind, id)\<close>, not awaited.\<close>

definition upload_if_file :: "request \<Rightarrow> string \<Rightarrow> jsval \<Rightarrow> effect list" where
  "upload_if_file req kind i =
     (case req_file req of None \<Rightarrow> [] | Some f \<Rightarrow> [CloudinaryUpload f kind i])"

definition update_handler ::
  "string \<Rightarrow> string \<Rightarrow> (string \<times> jsval) list \<Rightarrow> http_env \<Rightarrow> request \<Rightarrow> reply \<times> effect list" where
  "update_handler tbl label payload e req =
     (let i = params_id req; q = update_query tbl payload i
      in case supabase e q of
           Inl err \<Rightarrow> (Rejected err, [Db q])
         | Inr r \<Rightarrow>
             (case error r of
                Some err \<Rightarrow> (error_500 err, [Db q])
              | None \<Rightarrow>
                  (Sent (Response 200
                     (JObj [(''message'', JStr (label @ '' '' @ i @ '' updated successfully''))])),
                   Db q # upload_if_file req tbl (JStr i))))"

definition updateArtist :: "http_env \<Rightarrow> request \<Rightarrow> reply \<times> effect list" where
  "updateArtist e req =
     update_handler ''artists'' ''Artist'' (updateArtist_payload (req_body req)) e req"

definition updateSong :: "http_env \<Rightarrow> request \<Rightarrow> reply \<times> effect list" where
  "updateSong e req =
     update_handler ''songs'' ''Song'' (updateSong_payload (req_body req)) e req"

text \<open>\<open>addSong\<close>: the row of one artist link, and the insert that writes it.\<close>

definition link_row :: "jsval \<Rightarrow> jsval \<Rightarrow> nat \<Rightarrow> (string \<times> jsval) list" where
  "link_row songid artistid index =
     [(''songid'', songid), (''artistid'', artistid),
      (''relation'', JStr (if index = 0 then ''Primary'' else ''Featured''))]"

definition insert_query :: "string \<Rightarrow> (string \<times> jsval) list \<Rightarrow> string \<Rightarrow> bool \<Rightarrow> query" where
  "insert_query tbl row cols single =
     \<lparr> q_table = tbl, q_verb = InsertRow row, q_columns = cols,
       q_filters = [], q_range = None, q_single = single \<rparr>"

text \<open>
  \<^verbatim>\<open>artists.map(f)\<close>: a \<^verbatim>\<open>TypeError\<close> unless \<open>artists\<close> is an array.
\<close>

definition array_map_target :: "jsval \<Rightarrow> js_error + jsval list" where
  "array_map_target v =
     (case get_prop v ''map'' of
        Inl err \<Rightarrow> Inl err
      | Inr _ \<Rightarrow>
          (case v of
             JArr xs \<Rightarrow> Inr xs
           | _ \<Rightarrow> Inl (Error ''artists.map is not a function'')))"

text \<open>
  The link inserts, one per artist in the order supplied. The callback reads
  \<^verbatim>\<open>data!.id\<close> at each artist, so an unreadable \<open>id\<close> throws at the first one, before
  any insert is issued; with no artist it is not read.
\<close>

definition link_queries :: "jsval \<Rightarrow> jsval list \<Rightarrow> js_error + query list" where
  "link_queries row xs =
     (if xs = [] then Inr []
      else case get_prop row ''id'' of
             Inl err \<Rightarrow> Inl err
           | Inr sid \<Rightarrow>
               Inr (map (\<lambda>(index, a). insert_query ''artistssongs'' (link_row sid a index) [] False)
                      (enumerate 0 xs)))"

definition addSong :: "http_env \<Rightarrow> request \<Rightarrow> reply \<times> effect list" where
  "addSong e req =
     (let b = req_body req; title = field b ''title''
      in if \<not> truthy title
         then (Sent (Response 400 (JObj [(''error'', JStr ''Payload must have field: title'')])), [])
         else
           (let ins = insert_query ''songs'' (addSong_payload b) ''id'' True
            in case supabase e ins of
                 Inl err \<Rightarrow> (Rejected err, [Db ins])
               | Inr r \<Rightarrow>
                   (case error r of
                      Some err \<Rightarrow> (error_500 err, [Db ins])
                    | None \<Rightarrow>
                        (case array_map_target (field b ''artists'') of
                           Inl err \<Rightarrow> (Rejected err, [Db ins])
                         | Inr xs \<Rightarrow>
                             (case link_queries (data r) xs of
                                Inl err \<Rightarrow> (Rejected err, [Db ins])
                              | Inr lqs \<Rightarrow>
                                  (let log = Db ins # map Db lqs
                                   in case promise_all (map (supabase e) lqs) of
                                        Inl err \<Rightarrow> (Rejected err, log)
                                      | Inr results \<Rightarrow>
                                          (let errors = filter_Boolean (map error results)
                                           in case get_prop (data r) ''id'' of
                                                Inl err \<Rightarrow>
                                                  if 0 < length errors \<or> req_file req \<noteq> None
                                                  then (Rejected err, log)
                                                  else (Sent (Response 201 (JObj [(''message'',
                                                          JStr (''Song '' @ toString title @ '' created''))])),
                                                        log)
                                              | Inr sid \<Rightarrow>
                                                  if 0 < length errors
                                                  then (Sent (Response 500 (JObj
                                                          [(''error'', JStr
                                                              (''Failed to link associate artists with current song ''
                                                               @ toString sid)),
                                                           (''details'',
                                                              JArr (map (\<lambda>x. JStr (message x)) errors))])),
                                                        log)
                                                  else (Sent (Response 201 (JObj [(''message'',
                                                          JStr (''Song '' @ toString title @ '' created''))])),
                                                        log @ upload_if_file req ''songs'' sid))))))))"

definition deleteSong :: "http_env \<Rightarrow> request \<Rightarrow> reply \<times> effect list" where
  "deleteSong e req =
     (let i = params_id req;
          q = \<lparr> q_table = ''songs'', q_verb = DeleteRows, q_columns = ''title'',
                q_filters = [Eq ''id'' i], q_range = None, q_single = True \<rparr>
      in case supabase e q of
           Inl err \<Rightarrow> (Rejected err, [Db q])
         | Inr r \<Rightarrow>
             (case error r of
                Some err \<Rightarrow> (error_500 err, [Db q])
              | None \<Rightarrow>
                  (case get_prop (data r) ''title'' of
                     Inl err \<Rightarrow> (Rejected err, [Db q])
                   | Inr title \<Rightarrow>
                       (Sent (Response 202
                          (JObj [(''message'', JStr (''Song '' @ i @ '' is being deleted''))])),
                        [Db q, BlobDelete (toString title @ ''.mp3''),
                         CloudinaryDelete ''songs'' (''i-'' @ i)]))))"

section \<open>Vocabulary of the handlers' properties\<close>

text \<open>Which effects touch the cache store, and which the record store.\<close>

fun is_cache_effect :: "effect \<Rightarrow> bool" where
  "is_cache_effect (RedisGet k) = True"
| "is_cache_effect (RedisSet k v ex) = True"
| "is_cache_effect x = False"

fun is_store_query :: "effect \<Rightarrow> bool" where
  "is_store_query (Db q) = True"
| "is_store_query x = False"

text \<open>
  What a search answers from the store alone. A per-category search sends one query,
  from offset \<open>(page - 1) * limit\<close> to \<open>page * limit - 1\<close>, page 1 and the category's
  limit by default: a rejected query rejects the handler, a query that resolves with an
  error is answered 500 with its message, any other 200 with \<^verbatim>\<open>{ data }\<close>. The default
  search is answered 500 with \<^verbatim>\<open>{ error: {} }\<close> when a query rejects, 500 with the
  messages of the failing queries when one resolves with an error, and otherwise 200
  with the five row sets under \<open>data\<close>, keyed by category.
\<close>

definition category_query :: "(string \<Rightarrow> int \<Rightarrow> int \<Rightarrow> query) \<Rightarrow> int \<Rightarrow> request \<Rightarrow> query" where
  "category_query mk default_limit req =
     mk (params_term req)
       ((number_or (query_page req) 1 - 1) * number_or (query_limit req) default_limit)
       (number_or (query_page req) 1 * number_or (query_limit req) default_limit - 1)"

definition category_reply :: "js_error + q_result \<Rightarrow> reply" where
  "category_reply a =
     (case a of
        Inl err \<Rightarrow> Rejected err
      | Inr r \<Rightarrow>
          (case error r of
             Some err \<Rightarrow> Sent (Response 500 (JObj [(''error'', JStr (message err))]))
           | None \<Rightarrow> Sent (Response 200 (JObj [(''data'', data r)]))))"

definition failed :: "q_result \<Rightarrow> bool" where
  "failed r = (error r \<noteq> None)"

definition failing_messages :: "q_result list \<Rightarrow> string list" where
  "failing_messages rs =
     map (\<lambda>r. case error r of Some err \<Rightarrow> message err | None \<Rightarrow> []) (filter failed rs)"

definition default_reply :: "(js_error + q_result) list \<Rightarrow> reply" where
  "default_reply answers =
     (if list_ex isl answers then Sent (Response 500 (JObj [(''error'', JObj [])]))
      else if list_ex failed (map projr answers)
      then Sent (Response 500
             (JObj [(''error'', JArr (map JStr (failing_messages (map projr answers))))]))
      else Sent (Response 200
             (JObj [(''data'',
                JObj [(''songs'', data (projr (answers ! 0))),
                      (''artists'', data (projr (answers ! 1))),
                      (''albums'', data (projr (answers ! 2))),
                      (''playlists'', data (projr (answers ! 3))),
                      (''users'', data (projr (answers ! 4)))])])))"

text \<open>
  A handler gives a live view, with the reply \<open>r\<close> from the queries \<open>qs\<close>, when it
  answers \<open>r\<close>, its effects are the queries \<open>qs\<close> to the record store and nothing else
  (so no read and no write of the cache), at least one query is made, the cache is left
  as it was found, and all this is so whatever the cache holds (\<open>c0\<close> is any other
  cache).
\<close>

definition live_view ::
  "(http_env \<Rightarrow> request \<Rightarrow> cache \<Rightarrow> reply \<times> cache \<times> effect list) \<Rightarrow>
   http_env \<Rightarrow> request \<Rightarrow> cache \<Rightarrow> cache \<Rightarrow> reply \<Rightarrow> query list \<Rightarrow> bool" where
  "live_view h e req c c0 r qs =
     (h e req c = (r, c, map Db qs)
      \<and> h e req c0 = (r, c0, map Db qs)
      \<and> qs \<noteq> []
      \<and> \<not> list_ex is_cache_effect (snd (snd (h e req c)))
      \<and> list_ex is_store_query (snd (snd (h e req c))))"

text \<open>
  A handler fails on the cache when its promise rejects with the error \<open>err\<close>, sending
  no response, after the cache read alone: no store query is issued and the cache is
  as before.
\<close>

definition fails_on_cache ::
  "(http_env \<Rightarrow> request \<Rightarrow> cache \<Rightarrow> reply \<times> cache \<times> effect list) \<Rightarrow>
   http_env \<Rightarrow> request \<Rightarrow> cache \<Rightarrow> js_error \<Rightarrow> bool" where
  "fails_on_cache h e req c err =
     (fst (h e req c) = Rejected err
      \<and> fst (snd (h e req c)) = c
      \<and> \<not> list_ex is_store_query (snd (snd (h e req c))))"

text \<open>
  The fields a request body supplies: those it has an entry for. The columns an update
  of a song and of an artist may set.
\<close>

definition supplied :: "(string \<times> jsval) list \<Rightarrow> string \<Rightarrow> bool" where
  "supplied b k = (map_of b k \<noteq> None)"

definition song_columns :: "string list" where
  "song_columns =
     [''title'', ''description'', ''thumbnailurl'', ''duration'', ''releasedate'', ''genre'', ''views'']"

definition artist_columns :: "string list" where
  "artist_columns = [''description'', ''avatarurl'', ''country'']"

text \<open>The rows a log inserts into a table, in the order of the inserts.\<close>

fun inserted_rows :: "string \<Rightarrow> effect list \<Rightarrow> (string \<times> jsval) list list" where
  "inserted_rows tbl [] = []"
| "inserted_rows tbl (Db q # log) =
     (case q_verb q of
        InsertRow row \<Rightarrow>
          if q_table q = tbl then row # inserted_rows tbl log else inserted_rows tbl log
      | _ \<Rightarrow> inserted_rows tbl log)"
| "inserted_rows tbl (x # log) = inserted_rows tbl log"

definition relation_of :: "(string \<times> jsval) list \<Rightarrow> jsval" where
  "relation_of row = field row ''relation''"

definition artist_link :: "jsval \<Rightarrow> string \<Rightarrow> jsval \<Rightarrow> (string \<times> jsval) list" where
  "artist_link songid rel artistid =
     [(''songid'', songid), (''artistid'', artistid), (''relation'', JStr rel)]"

text \<open>The store accepted a query: the promise resolved, with no error.\<close>

definition accepted :: "http_env \<Rightarrow> query \<Rightarrow> bool" where
  "accepted e q = (case supabase e q of Inl err \<Rightarrow> False | Inr r \<Rightarrow> error r = None)"

fun all_accepted :: "http_env \<Rightarrow> effect list \<Rightarrow> bool" where
  "all_accepted e [] = True"
| "all_accepted e (Db q # log) = (accepted e q \<and> all_accepted e log)"
| "all_accepted e (x # log) = all_accepted e log"

subsection \<open>An example deployment\<close>

text \<open>
  The role resolver answers \<^verbatim>\<open>"Admin"\<close> to one credential and \<^verbatim>\<open>"User"\<close> to anything
  else; the record store holds one song, by one artist, and answers every query with
  its rows; the cache store is up.
\<close>

definition example_store :: "query \<Rightarrow> js_error + q_result" where
  "example_store q =
     (if q_table q = ''artistssongs''
      then Inr (QResult (JObj [(''artist'', JObj [(''name'', JStr ''Adele'')]),
                               (''song'', JObj [(''title'', JStr ''Hello'')])]) None)
      else if q_single q
      then Inr (QResult (JObj [(''id'', JNum 7), (''title'', JStr ''Hello'')]) None)
      else Inr (QResult (JArr [JObj [(''id'', JNum 7), (''title'', JStr ''Hello'')]]) None))"

definition example_env :: http_env where
  "example_env =
     \<lparr> enforceRole = (\<lambda>h. if h = Some ''Bearer root'' then ''Admin'' else ''User''),
       supabase = example_store,
       redis_clock = 1000,
       redis_get_error = None,
       redis_set_error = None,
       JSON_stringify = toString,
       backblaze_presign = (\<lambda>k n. Inr (''https://blob.example/'' @ k)),
       backblaze_deleteObject = (\<lambda>k. None),
       cloudinary_upload = (\<lambda>f kind i. None),
       cloudinary_delete = (\<lambda>kind i. None) \<rparr>"

definition example_request :: request where
  "example_request =
     \<lparr> params_term = ''hello'', params_id = ''7'', query_page = None, query_limit = None,
       authorization = None, req_body = [], req_file = None \<rparr>"

text \<open>A request to create the song with the given artist ids.\<close>

definition create_request :: "jsval list \<Rightarrow> request" where
  "create_request artists =
     example_request\<lparr> req_body := [(''title'', JStr ''Hello''), (''artists'', JArr artists)] \<rparr>"

text \<open>A record store whose artist query fails while the other four succeed.\<close>

definition artists_down_store :: "query \<Rightarrow> js_error + q_result" where
  "artists_down_store q =
     (if q_table q = ''artists''
      then Inr (QResult JNull (Some (Error ''relation artists does not exist'')))
      else Inr (QResult (JArr []) None))"

text \<open>
  A record store whose artist query resolves with an error and whose user query
  rejects, while the other three succeed.
\<close>

definition users_rejecting_store :: "query \<Rightarrow> js_error + q_result" where
  "users_rejecting_store q =
     (if q_table q = ''profiles'' then Inl (Error ''fetch failed'')
      else artists_down_store q)"

section \<open>Properties of the payment gateway client\<close>

subsection \<open>Decimal strings\<close>

lemma digit_char_is_digit: "d < 10 \<Longrightarrow> is_digit (digit_char d)"
  by (simp add: is_digit_def digit_char_def)

lemma digit_val_digit_char: "d < 10 \<Longrightarrow> digit_val (digit_char d) = d"
  by (simp add: digit_val_def digit_char_def)

lemma dec_digits: "list_all is_digit (dec n)"
proof (induction n rule: dec.induct)
  case (1 n)
  show ?case
  proof (cases "n < 10")
    case True
    then show ?thesis by (simp add: dec.simps [of n] digit_char_is_digit)
  next
    case False
    with 1 show ?thesis by (simp add: dec.simps [of n] digit_char_is_digit)
  qed
qed

lemma dec_nonempty: "dec n \<noteq> []"
  by (subst dec.simps) simp

lemma length_dec_ge2: "10 \<le> n \<Longrightarrow> 2 \<le> length (dec n)"
  using dec_nonempty [of "n div 10"] by (subst dec.simps) (simp add: Suc_le_eq)

lemma length_dec_small: "n < 10 \<Longrightarrow> length (dec n) = 1"
  by (subst dec.simps) simp

lemma length_dec_two: "10 \<le> n \<Longrightarrow> n < 100 \<Longrightarrow> length (dec n) = 2"
  by (subst dec.simps) (simp add: length_dec_small)

lemma parseInt_snoc: "parseInt (s @ [c]) = 10 * parseInt s + digit_val c"
  by (simp add: parseInt_def)

lemma slice_last_snoc: "slice_last (Suc k) (s @ [c]) = slice_last k s @ [c]"
  by (simp add: slice_last_def)

lemma parseInt_slice_last_dec: "parseInt (slice_last k (dec n)) = n mod 10 ^ k"
proof (induction n arbitrary: k rule: dec.induct)
  case (1 n)
  show ?case
  proof (cases k)
    case 0
    then show ?thesis by (simp add: slice_last_def parseInt_def)
  next
    case (Suc j)
    show ?thesis
    proof (cases "n < 10")
      case True
      have "n < 10 ^ Suc j" using True
      proof -
        have "(1::nat) \<le> 10 ^ j" by simp
        with True show ?thesis unfolding power_Suc by linarith
      qed
      with True Suc show ?thesis
        by (simp add: dec.simps [of n] slice_last_def parseInt_def digit_val_digit_char)
    next
      case False
      have "parseInt (slice_last (Suc j) (dec n)) = 10 * ((n div 10) mod 10 ^ j) + n mod 10"
        using False 1 [of j]
        by (simp add: dec.simps [of n] slice_last_snoc parseInt_snoc digit_val_digit_char)
      also have "\<dots> = n mod 10 ^ Suc j"
        by (simp add: mod_mult2_eq)
      finally show ?thesis using Suc by simp
    qed
  qed
qed

lemma parseInt_dec: "parseInt (dec n) = n"
proof (induction n rule: dec.induct)
  case (1 n)
  show ?case
  proof (cases "n < 10")
    case True
    then show ?thesis by (simp add: dec.simps [of n] parseInt_def digit_val_digit_char)
  next
    case False
    with 1 show ?thesis
      by (simp add: dec.simps [of n] parseInt_snoc digit_val_digit_char)
  qed
qed

lemma dec_inj: "dec m = dec n \<Longrightarrow> m = n"
  by (metis parseInt_dec)

subsection \<open>Transaction ids\<close>

lemma slice_last_1_dec: "slice_last 1 (dec m) = [digit_char (m mod 10)]"
  by (subst dec.simps) (simp add: slice_last_def)

lemma slice_last_2_dec:
  assumes "10 \<le> y"
  shows "slice_last 2 (dec y) = two_digits (y mod 100)"
proof -
  have "slice_last 2 (dec y) = slice_last (Suc 1) (dec (y div 10) @ [digit_char (y mod 10)])"
    using assms by (subst dec.simps) (simp add: numeral_2_eq_2)
  also have "\<dots> = [digit_char ((y div 10) mod 10), digit_char (y mod 10)]"
    by (simp only: slice_last_snoc slice_last_1_dec) simp
  also have "\<dots> = two_digits (y mod 100)"
  proof -
    have "y mod 100 = 10 * (y div 10 mod 10) + y mod 10"
      using mod_mult2_eq [of y 10 10] by simp
    then show ?thesis by (simp add: two_digits_def)
  qed
  finally show ?thesis .
qed

lemma char_of_48: "char_of (48::nat) = CHR ''0''"
  by code_simp

lemma padStart_2_dec:
  assumes "m < 100"
  shows "padStart 2 (CHR ''0'') (dec m) = two_digits m"
proof (cases "m < 10")
  case True
  then show ?thesis
    by (simp add: dec.simps [of m] padStart_def two_digits_def digit_char_def char_of_48)
next
  case False
  then have "m div 10 < 10" using assms by simp
  with False show ?thesis
    by (simp add: dec.simps [of m] dec.simps [of "m div 10"] padStart_def two_digits_def)
qed

lemma trans_id_format:
  assumes "valid_date d"
  shows "trans_id d n = date_prefix d @ ''_'' @ dec n"
  using assms
  by (simp add: trans_id_def date_prefix_def valid_date_def slice_last_2_dec padStart_2_dec)

lemma two_digits_digits: "k < 100 \<Longrightarrow> list_all is_digit (two_digits k)"
  by (simp add: two_digits_def digit_char_is_digit)

lemma date_prefix_digits:
  assumes "valid_date d"
  shows "length (date_prefix d) = 6" and "list_all is_digit (date_prefix d)"
proof -
  have a: "list_all is_digit (two_digits (getFullYear d mod 100))"
    by (rule two_digits_digits) simp
  have b: "list_all is_digit (two_digits (getMonth d + 1))"
    using assms by (intro two_digits_digits) (simp add: valid_date_def)
  have c: "list_all is_digit (two_digits (getDate d))"
    using assms by (intro two_digits_digits) (simp add: valid_date_def)
  show "length (date_prefix d) = 6"
    by (simp add: date_prefix_def two_digits_def)
  show "list_all is_digit (date_prefix d)"
    using a b c by (simp add: date_prefix_def)
qed

lemma trans_id_pattern:
  assumes "valid_date d"
  shows "is_trans_id d (trans_id d n)" and "sequence_of (trans_id d n) = n"
proof -
  have f: "trans_id d n = date_prefix d @ ''_'' @ dec n"
    using assms by (rule trans_id_format)
  have l: "0 < length (dec n)" using dec_nonempty [of n] by simp
  show "is_trans_id d (trans_id d n)"
    using date_prefix_digits [OF assms] l dec_digits [of n] unfolding f is_trans_id_def
    by (simp add: nth_append)
  show "sequence_of (trans_id d n) = n"
    using date_prefix_digits(1) [OF assms] unfolding f sequence_of_def
    by (simp add: parseInt_dec)
qed

lemma dec_small: "n < 10 \<Longrightarrow> dec n = [digit_char n]"
  by (subst dec.simps) simp

lemma dec_step: "10 \<le> n \<Longrightarrow> dec n = dec (n div 10) @ [digit_char (n mod 10)]"
  by (subst dec.simps) simp

lemma digit_chars:
  "digit_char 0 = CHR ''0''" "digit_char 1 = CHR ''1''" "digit_char 2 = CHR ''2''"
  "digit_char 3 = CHR ''3''" "digit_char 4 = CHR ''4''" "digit_char 5 = CHR ''5''"
  "digit_char 6 = CHR ''6''" "digit_char 7 = CHR ''7''" "digit_char 8 = CHR ''8''"
  "digit_char 9 = CHR ''9''" "digit_char (Suc 0) = CHR ''1''"
  by code_simp+

lemma trans_id_inj:
  assumes "valid_date d" "valid_date d'" "trans_id d n = trans_id d' n'"
  shows "n = n'"
  using trans_id_pattern(2) [OF assms(1), of n] trans_id_pattern(2) [OF assms(2), of n'] assms(3)
  by simp

lemma ZaloPay_new_seed: "orderID (ZaloPay_new a k1 k2 t) = t mod 1000000"
  by (simp add: ZaloPay_new_def parseInt_slice_last_dec)

lemma createOrder_state: "snd (createOrder e u its z) = z\<lparr> orderID := orderID z + 1 \<rparr>"
  by (simp add: createOrder_def Let_def split: sum.split)

lemma createOrder_success:
  assumes "fst (createOrder e u its z) = Inr r"
  shows "r ''app_trans_id'' = Some (JStr (trans_id (new_Date e) (orderID z + 1)))"
  using assms by (auto simp: createOrder_def Let_def build_order_def split: sum.splits)

lemma createOrder_success_post:
  assumes "fst (createOrder e u its z) = Inr r"
  shows "\<exists>ord res. axios_post e ord = Inr res
           \<and> o_app_trans_id ord = trans_id (new_Date e) (orderID z + 1)
           \<and> r = res(''app_trans_id'' \<mapsto> JStr (trans_id (new_Date e) (orderID z + 1)))"
proof -
  let ?ord = "build_order e (z\<lparr> orderID := orderID z + 1 \<rparr>) u its"
  have t: "o_app_trans_id ?ord = trans_id (new_Date e) (orderID z + 1)"
    by (simp add: build_order_def)
  from assms obtain m res where p: "axios_post e (?ord\<lparr> o_mac := m \<rparr>) = Inr res"
    and r: "r = res(''app_trans_id'' \<mapsto> JStr (o_app_trans_id ?ord))"
    by (auto simp: createOrder_def Let_def split: sum.splits)
  have "axios_post e (?ord\<lparr> o_mac := m \<rparr>) = Inr res
          \<and> o_app_trans_id (?ord\<lparr> o_mac := m \<rparr>) = trans_id (new_Date e) (orderID z + 1)
          \<and> r = res(''app_trans_id'' \<mapsto> JStr (trans_id (new_Date e) (orderID z + 1)))"
    using p r t by simp
  then show ?thesis by blast
qed

lemma createOrders_length: "length (fst (createOrders cs z)) = length cs"
proof (induction cs arbitrary: z)
  case Nil
  then show ?case by simp
next
  case (Cons c cs)
  obtain e u its where c: "c = (e, u, its)" by (cases c) auto
  have "fst (createOrders (c # cs) z) =
          fst (createOrder e u its z) # fst (createOrders cs (snd (createOrder e u its z)))"
    by (simp add: c split: prod.splits)
  then show ?case by (simp add: Cons.IH)
qed

lemma createOrders_nth:
  "i < length cs \<Longrightarrow>
   fst (createOrders cs z) ! i =
     fst (createOrder (fst (cs ! i)) (fst (snd (cs ! i))) (snd (snd (cs ! i)))
            (z\<lparr> orderID := orderID z + i \<rparr>))"
proof (induction cs arbitrary: z i)
  case Nil
  then show ?case by simp
next
  case (Cons c cs)
  obtain e u its where c: "c = (e, u, its)" by (cases c) auto
  show ?case
  proof (cases i)
    case 0
    then show ?thesis by (simp add: c split: prod.splits)
  next
    case (Suc k)
    have k: "k < length cs" using Cons.prems Suc by simp
    have "fst (createOrders (c # cs) z) ! i = fst (createOrders cs (snd (createOrder e u its z))) ! k"
      by (simp add: c Suc split: prod.splits)
    also have "\<dots> = fst (createOrder (fst (cs ! k)) (fst (snd (cs ! k))) (snd (snd (cs ! k)))
            ((snd (createOrder e u its z))\<lparr> orderID := orderID (snd (createOrder e u its z)) + k \<rparr>))"
      by (rule Cons.IH [OF k])
    finally show ?thesis by (simp add: createOrder_state Suc)
  qed
qed

subsection \<open>The claims about the gateway client\<close>

text \<open>
  Claim C1. For every payload \<open>p\<close> and supplied MAC \<open>m\<close>, \<open>receiveOrderCallback\<close> returns
  the success result (return code 1) exactly when \<open>m\<close> is the hex HMAC of \<open>p\<close> under
  \<open>key2\<close>; for any other \<open>m\<close> it returns the result with return code \<open>-1\<close>; and when
  hashing throws it returns the result with return code 0 carrying the error's message.
  The function is total: every path ends in a result, none in an exception.
\<close>

theorem receiveOrderCallback_verdict:
  "(return_code (receiveOrderCallback e z p m) = 1 \<longleftrightarrow> createHmac e (key2 (client z)) p = Inr m)
   \<and> (createHmac e (key2 (client z)) p = Inr m \<longrightarrow>
        receiveOrderCallback e z p m = \<lparr> return_code = 1, return_message = ''success'' \<rparr>)
   \<and> (\<forall>mac. createHmac e (key2 (client z)) p = Inr mac \<and> mac \<noteq> m \<longrightarrow>
        receiveOrderCallback e z p m = \<lparr> return_code = - 1, return_message = ''mac not equal'' \<rparr>)
   \<and> (\<forall>err. createHmac e (key2 (client z)) p = Inl err \<longrightarrow>
        receiveOrderCallback e z p m = \<lparr> return_code = 0, return_message = message err \<rparr>)"
  by (auto simp: receiveOrderCallback_def split: sum.splits)

theorem receiveOrderCallback_verdict_witness:
  "receiveOrderCallback (shop_env nov_2 0) shop ''payload'' ''k2payload''
     = \<lparr> return_code = 1, return_message = ''success'' \<rparr>
   \<and> receiveOrderCallback (shop_env nov_2 0) shop ''payload'' ''forged''
     = \<lparr> return_code = - 1, return_message = ''mac not equal'' \<rparr>
   \<and> receiveOrderCallback ((shop_env nov_2 0)\<lparr> createHmac := (\<lambda>k s. Inl (Error ''Invalid key'')) \<rparr>)
        shop ''payload'' ''k2payload''
     = \<lparr> return_code = 0, return_message = ''Invalid key'' \<rparr>"
proof -
  have k: "key2 (client shop) = ''k2''"
    by (simp add: shop_def ZaloPay_new_def)
  have h: "createHmac (shop_env nov_2 0) ''k2'' ''payload'' = Inr ''k2payload''"
    by (simp add: shop_env_def)
  have f: "createHmac ((shop_env nov_2 0)\<lparr> createHmac := (\<lambda>k s. Inl (Error ''Invalid key'')) \<rparr>)
             ''k2'' ''payload'' = Inl (Error ''Invalid key'')"
    by simp
  show ?thesis
    using receiveOrderCallback_verdict [of "shop_env nov_2 0" shop "''payload''" "''k2payload''"]
      receiveOrderCallback_verdict [of "shop_env nov_2 0" shop "''payload''" "''forged''"]
      receiveOrderCallback_verdict [of "(shop_env nov_2 0)\<lparr> createHmac := (\<lambda>k s. Inl (Error ''Invalid key'')) \<rparr>"
        shop "''payload''" "''k2payload''"]
      h f
    unfolding k by auto
qed

text \<open>
  Claim C10. \<open>createOrder\<close> increments the counter before it submits the order. When the
  post to the gateway rejects, the call ends with that error and the counter keeps the
  incremented value: the next call, whatever its outcome, leaves the counter two above
  where the failed call found it.
\<close>

theorem createOrder_rejected_post_keeps_increment:
  assumes "createHmac e (key1 (client z))
             (mac_input (z\<lparr> orderID := orderID z + 1 \<rparr>)
                (build_order e (z\<lparr> orderID := orderID z + 1 \<rparr>) u its)) = Inr m"
    and "axios_post e ((build_order e (z\<lparr> orderID := orderID z + 1 \<rparr>) u its)\<lparr> o_mac := m \<rparr>) = Inl err"
  shows "createOrder e u its z = (Inl err, z\<lparr> orderID := orderID z + 1 \<rparr>)
         \<and> orderID (snd (createOrder e' u' its' (snd (createOrder e u its z)))) = orderID z + 2"
proof -
  have a: "createOrder e u its z = (Inl err, z\<lparr> orderID := orderID z + 1 \<rparr>)"
    using assms by (simp add: createOrder_def Let_def)
  have b: "orderID (snd (createOrder e' u' its' (snd (createOrder e u its z)))) = orderID z + 2"
    by (simp add: createOrder_state)
  from a b show ?thesis by simp
qed

theorem createOrder_rejected_post_keeps_increment_witness:
  "createOrder ((shop_env nov_2 5)\<lparr> axios_post := (\<lambda>ord. Inl (Error ''ECONNREFUSED'')) \<rparr>) ''u1'' [] shop
     = (Inl (Error ''ECONNREFUSED''), shop\<lparr> orderID := 123457 \<rparr>)
   \<and> orderID shop = 123456"
proof -
  let ?e = "(shop_env nov_2 5)\<lparr> axios_post := (\<lambda>ord. Inl (Error ''ECONNREFUSED'')) \<rparr>"
  have s: "orderID shop = 123456"
    by (simp add: shop_def ZaloPay_new_seed)
  have h: "createHmac ?e (key1 (client shop))
             (mac_input (shop\<lparr> orderID := orderID shop + 1 \<rparr>)
                (build_order ?e (shop\<lparr> orderID := orderID shop + 1 \<rparr>) ''u1'' []))
           = Inr (key1 (client shop) @ mac_input (shop\<lparr> orderID := orderID shop + 1 \<rparr>)
                (build_order ?e (shop\<lparr> orderID := orderID shop + 1 \<rparr>) ''u1'' []))"
    by (simp add: shop_env_def)
  have p: "axios_post ?e ((build_order ?e (shop\<lparr> orderID := orderID shop + 1 \<rparr>) ''u1'' [])
             \<lparr> o_mac := key1 (client shop) @ mac_input (shop\<lparr> orderID := orderID shop + 1 \<rparr>)
                (build_order ?e (shop\<lparr> orderID := orderID shop + 1 \<rparr>) ''u1'' []) \<rparr>)
           = Inl (Error ''ECONNREFUSED'')"
    by simp
  show ?thesis
    using createOrder_rejected_post_keeps_increment [OF h p] s by simp
qed

text \<open>
  Claim C7. In a process started at clock \<open>t\<close>, any two calls of \<open>createOrder\<close> that
  return (the \<open>i\<close>-th and the \<open>j\<close>-th, \<open>i < j\<close>) return objects whose \<open>app_trans_id\<close>
  entries are distinct and both match \<^verbatim>\<open>YYMMDD_<sequence>\<close>: each is the two-digit year,
  month and day of its own call's date, an underscore, and the decimal sequence number,
  which is \<open>t mod 10^6 + i + 1\<close> for the one and \<open>t mod 10^6 + j + 1\<close> for the other:
  seeded from the last six digits of the clock, one more at each call, strictly
  increasing. The id is the one generated locally and sent with the order, added to the
  gateway's response. The bound on the number of calls keeps the counter below
  \<open>2^53\<close>, where a JavaScript number counts exactly.
\<close>

theorem createOrder_ids_distinct_increasing:
  assumes "i < j" and "j < length cs"
    and "z = ZaloPay_new a k1 k2 t"
    and "length cs + 1000000 \<le> 2 ^ 53"
    and "fst (createOrders cs z) ! i = Inr r1"
    and "fst (createOrders cs z) ! j = Inr r2"
    and "valid_date (new_Date (fst (cs ! i)))"
    and "valid_date (new_Date (fst (cs ! j)))"
  shows "\<exists>s1 s2. r1 ''app_trans_id'' = Some (JStr s1) \<and> r2 ''app_trans_id'' = Some (JStr s2)
           \<and> (\<exists>ord res. axios_post (fst (cs ! i)) ord = Inr res \<and> o_app_trans_id ord = s1
                 \<and> r1 = res(''app_trans_id'' \<mapsto> JStr s1))
           \<and> (\<exists>ord res. axios_post (fst (cs ! j)) ord = Inr res \<and> o_app_trans_id ord = s2
                 \<and> r2 = res(''app_trans_id'' \<mapsto> JStr s2))
           \<and> s1 \<noteq> s2
           \<and> s1 = date_prefix (new_Date (fst (cs ! i))) @ ''_'' @ dec (t mod 1000000 + i + 1)
           \<and> s2 = date_prefix (new_Date (fst (cs ! j))) @ ''_'' @ dec (t mod 1000000 + j + 1)
           \<and> is_trans_id (new_Date (fst (cs ! i))) s1
           \<and> is_trans_id (new_Date (fst (cs ! j))) s2
           \<and> sequence_of s1 = t mod 1000000 + i + 1
           \<and> sequence_of s2 = t mod 1000000 + j + 1
           \<and> sequence_of s1 < sequence_of s2
           \<and> sequence_of s2 < 2 ^ 53"
proof -
  let ?d1 = "new_Date (fst (cs ! i))" and ?d2 = "new_Date (fst (cs ! j))"
  let ?n1 = "t mod 1000000 + i + 1" and ?n2 = "t mod 1000000 + j + 1"
  have seed: "orderID z = t mod 1000000"
    using assms(3) by (simp add: ZaloPay_new_seed)
  have i: "i < length cs" using assms(1,2) by simp
  have c1: "fst (createOrder (fst (cs ! i)) (fst (snd (cs ! i))) (snd (snd (cs ! i)))
               (z\<lparr> orderID := orderID z + i \<rparr>)) = Inr r1"
    using createOrders_nth [OF i, of z] assms(5) by simp
  have r1: "r1 ''app_trans_id'' = Some (JStr (trans_id ?d1 ?n1))"
    using createOrder_success [OF c1] seed by (simp add: add.assoc)
  have g1: "\<exists>ord res. axios_post (fst (cs ! i)) ord = Inr res
              \<and> o_app_trans_id ord = trans_id ?d1 ?n1
              \<and> r1 = res(''app_trans_id'' \<mapsto> JStr (trans_id ?d1 ?n1))"
    using createOrder_success_post [OF c1] seed by (simp add: add.assoc)
  have c2: "fst (createOrder (fst (cs ! j)) (fst (snd (cs ! j))) (snd (snd (cs ! j)))
               (z\<lparr> orderID := orderID z + j \<rparr>)) = Inr r2"
    using createOrders_nth [OF assms(2), of z] assms(6) by simp
  have r2: "r2 ''app_trans_id'' = Some (JStr (trans_id ?d2 ?n2))"
    using createOrder_success [OF c2] seed by (simp add: add.assoc)
  have g2: "\<exists>ord res. axios_post (fst (cs ! j)) ord = Inr res
              \<and> o_app_trans_id ord = trans_id ?d2 ?n2
              \<and> r2 = res(''app_trans_id'' \<mapsto> JStr (trans_id ?d2 ?n2))"
    using createOrder_success_post [OF c2] seed by (simp add: add.assoc)
  have ne: "trans_id ?d1 ?n1 \<noteq> trans_id ?d2 ?n2"
    using trans_id_inj [OF assms(7,8), of ?n1 ?n2] assms(1) by auto
  have "t mod 1000000 < 1000000" by simp
  then have bound: "?n2 < 2 ^ 53" using assms(2,4) by linarith
  have f1: "trans_id ?d1 ?n1 = date_prefix ?d1 @ ''_'' @ dec ?n1"
    by (rule trans_id_format [OF assms(7)])
  have f2: "trans_id ?d2 ?n2 = date_prefix ?d2 @ ''_'' @ dec ?n2"
    by (rule trans_id_format [OF assms(8)])
  have p1: "is_trans_id ?d1 (trans_id ?d1 ?n1)" and q1: "sequence_of (trans_id ?d1 ?n1) = ?n1"
    using trans_id_pattern [OF assms(7)] by simp_all
  have p2: "is_trans_id ?d2 (trans_id ?d2 ?n2)" and q2: "sequence_of (trans_id ?d2 ?n2) = ?n2"
    using trans_id_pattern [OF assms(8)] by simp_all
  have lt: "sequence_of (trans_id ?d1 ?n1) < sequence_of (trans_id ?d2 ?n2)"
    using assms(1) q1 q2 by simp
  have b2: "sequence_of (trans_id ?d2 ?n2) < 2 ^ 53"
    using bound q2 by simp
  have "r1 ''app_trans_id'' = Some (JStr (trans_id ?d1 ?n1))
        \<and> r2 ''app_trans_id'' = Some (JStr (trans_id ?d2 ?n2))
        \<and> (\<exists>ord res. axios_post (fst (cs ! i)) ord = Inr res
              \<and> o_app_trans_id ord = trans_id ?d1 ?n1
              \<and> r1 = res(''app_trans_id'' \<mapsto> JStr (trans_id ?d1 ?n1)))
        \<and> (\<exists>ord res. axios_post (fst (cs ! j)) ord = Inr res
              \<and> o_app_trans_id ord = trans_id ?d2 ?n2
              \<and> r2 = res(''app_trans_id'' \<mapsto> JStr (trans_id ?d2 ?n2)))
        \<and> trans_id ?d1 ?n1 \<noteq> trans_id ?d2 ?n2
        \<and> trans_id ?d1 ?n1 = date_prefix ?d1 @ ''_'' @ dec ?n1
        \<and> trans_id ?d2 ?n2 = date_prefix ?d2 @ ''_'' @ dec ?n2
        \<and> is_trans_id ?d1 (trans_id ?d1 ?n1)
        \<and> is_trans_id ?d2 (trans_id ?d2 ?n2)
        \<and> sequence_of (trans_id ?d1 ?n1) = ?n1
        \<and> sequence_of (trans_id ?d2 ?n2) = ?n2
        \<and> sequence_of (trans_id ?d1 ?n1) < sequence_of (trans_id ?d2 ?n2)
        \<and> sequence_of (trans_id ?d2 ?n2) < 2 ^ 53"
    using r1 r2 g1 g2 ne f1 f2 p1 p2 q1 q2 lt b2 by (intro conjI)
  then show ?thesis by blast
qed

theorem createOrder_ids_distinct_increasing_witness:
  "valid_date nov_2 \<and> valid_date nov_3
   \<and> fst (createOrders two_orders shop) ! 0
       = Inr [''return_code'' \<mapsto> JNum 1, ''app_trans_id'' \<mapsto> JStr ''261102_123457'']
   \<and> fst (createOrders two_orders shop) ! 1
       = Inr [''return_code'' \<mapsto> JNum 1, ''app_trans_id'' \<mapsto> JStr ''261103_123458'']
   \<and> is_trans_id nov_2 ''261102_123457''
   \<and> is_trans_id nov_3 ''261103_123458''
   \<and> sequence_of ''261102_123457'' = 123457
   \<and> sequence_of ''261103_123458'' = 123458"
proof -
  let ?r1 = "[''return_code'' \<mapsto> JNum 1, ''app_trans_id'' \<mapsto> JStr ''261102_123457'']"
  let ?r2 = "[''return_code'' \<mapsto> JNum 1, ''app_trans_id'' \<mapsto> JStr ''261103_123458'']"
  have v1: "valid_date nov_2" by (simp add: valid_date_def nov_2_def)
  have v2: "valid_date nov_3" by (simp add: valid_date_def nov_3_def)
  have seed: "orderID shop = 123456"
    by (simp add: shop_def ZaloPay_new_seed)
  have t1: "trans_id nov_2 123457 = ''261102_123457''"
    by (subst trans_id_format [OF v1])
      (simp add: date_prefix_def two_digits_def nov_2_def dec_step dec_small digit_chars)
  have t2: "trans_id nov_3 123458 = ''261103_123458''"
    by (subst trans_id_format [OF v2])
      (simp add: date_prefix_def two_digits_def nov_3_def dec_step dec_small digit_chars)
  have o1: "fst (createOrders two_orders shop) ! 0 = Inr ?r1"
    by (simp add: two_orders_def createOrder_def Let_def build_order_def shop_env_def seed t1)
  have o2: "fst (createOrders two_orders shop) ! 1 = Inr ?r2"
    by (simp add: two_orders_def createOrder_def Let_def build_order_def shop_env_def seed t2)
  have d1: "valid_date (new_Date (fst (two_orders ! 0)))"
    using v1 by (simp add: two_orders_def shop_env_def)
  have d2: "valid_date (new_Date (fst (two_orders ! 1)))"
    using v2 by (simp add: two_orders_def shop_env_def)
  have n1: "new_Date (fst (two_orders ! 0)) = nov_2" and n2: "new_Date (fst (two_orders ! 1)) = nov_3"
    by (simp_all add: two_orders_def shop_env_def)
  have len: "length two_orders + 1000000 \<le> 2 ^ 53" by (simp add: two_orders_def)
  have j: "1 < length two_orders" by (simp add: two_orders_def)
  have a1: "?r1 ''app_trans_id'' = Some (JStr ''261102_123457'')" by simp
  have a2: "?r2 ''app_trans_id'' = Some (JStr ''261103_123458'')" by simp
  from createOrder_ids_distinct_increasing [OF zero_less_one j shop_def len o1 o2 d1 d2]
  obtain s1 s2 where s1: "?r1 ''app_trans_id'' = Some (JStr s1)"
    and s2: "?r2 ''app_trans_id'' = Some (JStr s2)"
    and p1: "is_trans_id (new_Date (fst (two_orders ! 0))) s1"
    and p2: "is_trans_id (new_Date (fst (two_orders ! 1))) s2"
    and q1: "sequence_of s1 = 1793456123456 mod 1000000 + 0 + 1"
    and q2: "sequence_of s2 = 1793456123456 mod 1000000 + 1 + 1"
    by blast
  have e1: "s1 = ''261102_123457''" using s1 a1 by simp
  have e2: "s2 = ''261103_123458''" using s2 a2 by simp
  show ?thesis
    using v1 v2 o1 o2 p1 p2 q1 q2 unfolding e1 e2 n1 n2 by simp
qed

section \<open>Properties of the search handlers\<close>

lemma cache_phase_admin: "cache_phase e c ''Admin'' k = (None, [])"
  by (simp add: cache_phase_def)

lemma no_cache_effect_Db: "\<not> list_ex is_cache_effect (map Db qs)"
  by (induction qs) simp_all

lemma store_query_Db: "qs \<noteq> [] \<Longrightarrow> list_ex is_store_query (map Db qs)"
  by (cases qs) simp_all

lemma promise_all_resolved: "promise_all (map Inr rs) = Inr rs"
  by (induction rs) simp_all

lemma promise_all_Inr: "promise_all ps = Inr xs \<Longrightarrow> ps = map Inr xs"
proof (induction ps arbitrary: xs)
  case Nil
  then show ?case by simp
next
  case (Cons p ps)
  then show ?case by (cases p) (auto split: sum.splits)
qed

lemma promise_all_rejected: "list_ex isl ps \<Longrightarrow> \<exists>err. promise_all ps = Inl err"
proof (induction ps)
  case Nil
  then show ?case by simp
next
  case (Cons p ps)
  then show ?case by (cases p) (auto split: sum.splits)
qed

lemma promise_all_Inl: "promise_all ps = Inl err \<Longrightarrow> list_ex isl ps"
proof (induction ps)
  case Nil
  then show ?case by simp
next
  case (Cons p ps)
  then show ?case by (cases p) (auto split: sum.splits)
qed

lemma promise_all_no_rejection: "promise_all ps = Inr xs \<Longrightarrow> \<not> list_ex isl ps"
  using promise_all_rejected [of ps] by auto

lemma filter_Boolean_messages:
  "map message (filter_Boolean (map error rs)) = failing_messages rs"
proof (induction rs)
  case Nil
  then show ?case by (simp add: failing_messages_def)
next
  case (Cons r rs)
  then show ?case
    by (cases "error r") (simp_all add: failing_messages_def failed_def)
qed

lemma filter_Boolean_empty: "filter_Boolean (map error rs) = [] \<longleftrightarrow> \<not> list_ex failed rs"
proof (induction rs)
  case Nil
  then show ?case by simp
next
  case (Cons r rs)
  then show ?case by (cases "error r") (simp_all add: failed_def)
qed

lemma messages_as_json:
  "map (\<lambda>x. JStr (message x)) (filter_Boolean (map error rs)) = map JStr (failing_messages rs)"
  using filter_Boolean_messages [of rs, symmetric] by (simp add: comp_def)

lemma length_default_queries: "length (default_queries s) = 5"
  by (simp add: default_queries_def)

lemma no_rejection_resolved: "\<not> list_ex isl (map Inr rs)"
  by (induction rs) simp_all

lemma projr_resolved: "map projr (map Inr rs) = rs"
  by (induction rs) simp_all

lemma default_reply_resolved:
  assumes "length rs = 5"
  shows "default_reply (map Inr rs) =
           (if list_ex failed rs
            then Sent (Response 500 (JObj [(''error'', JArr (map JStr (failing_messages rs)))]))
            else Sent (Response 200 (default_payload rs)))"
proof -
  have n: "\<And>k. k < 5 \<Longrightarrow> projr (map Inr rs ! k) = rs ! k"
    using assms by simp
  show ?thesis
    unfolding default_reply_def default_payload_def projr_resolved
    by (simp only: no_rejection_resolved if_False n [of 0] n [of 1] n [of 2] n [of 3] n [of 4])
qed

lemma searchDefault_admin_reply:
  assumes "enforceRole e (authorization req) = ''Admin''"
  shows "searchDefault e req c =
           (default_reply (map (supabase e) (default_queries (params_term req))), c,
            map Db (default_queries (params_term req)))"
proof (cases "promise_all (map (supabase e) (default_queries (params_term req)))")
  case (Inl err)
  then have "list_ex isl (map (supabase e) (default_queries (params_term req)))"
    by (rule promise_all_Inl)
  with Inl assms show ?thesis
    by (simp add: searchDefault_def Let_def cache_phase_admin default_reply_def)
next
  case (Inr rs)
  have m: "map (supabase e) (default_queries (params_term req)) = map Inr rs"
    by (rule promise_all_Inr [OF Inr])
  have l: "length rs = 5"
    using arg_cong [OF m, of length] by (simp add: length_default_queries)
  have "searchDefault e req c =
          ((if list_ex failed rs
            then Sent (Response 500 (JObj [(''error'', JArr (map JStr (failing_messages rs)))]))
            else Sent (Response 200 (default_payload rs))), c,
           map Db (default_queries (params_term req)))"
    using Inr assms
    by (simp add: searchDefault_def Let_def cache_phase_admin filter_Boolean_empty
          messages_as_json)
  then show ?thesis
    unfolding m default_reply_resolved [OF l] .
qed

lemma search_category_admin_reply:
  assumes "enforceRole e (authorization req) = ''Admin''"
  shows "search_category cat dl mk e req c =
           (category_reply (supabase e (category_query mk dl req)), c,
            [Db (category_query mk dl req)])"
  using assms
  by (simp add: search_category_def Let_def cache_phase_admin category_reply_def
        category_query_def split: sum.split option.split)

lemma live_viewI:
  assumes "\<And>c. h e req c = (r, c, map Db qs)" and "qs \<noteq> []"
  shows "live_view h e req c c0 r qs"
  using assms by (simp add: live_view_def no_cache_effect_Db store_query_Db)

text \<open>
  Claim C4. For every search request, default or per-category, whose resolved role is
  \<^verbatim>\<open>"Admin"\<close>, the handler reads nothing from the cache and writes nothing to it: its
  effects are its store queries and nothing else, the cache is left as it was, and the
  reply is the one the answers of those fresh queries give, the same whatever the cache
  holds.
\<close>

theorem admin_search_bypasses_cache:
  assumes "enforceRole e (authorization req) = ''Admin''"
  shows "live_view searchDefault e req c c0
           (default_reply (map (supabase e) (default_queries (params_term req))))
           (default_queries (params_term req))
       \<and> live_view searchSongs e req c c0
           (category_reply (supabase e (category_query songs_query 20 req)))
           [category_query songs_query 20 req]
       \<and> live_view searchArtists e req c c0
           (category_reply (supabase e (category_query artists_query 30 req)))
           [category_query artists_query 30 req]
       \<and> live_view searchUsers e req c c0
           (category_reply (supabase e (category_query users_query 30 req)))
           [category_query users_query 30 req]
       \<and> live_view searchPlaylists e req c c0
           (category_reply (supabase e (category_query playlists_query 30 req)))
           [category_query playlists_query 30 req]
       \<and> live_view searchAlbums e req c c0
           (category_reply (supabase e (category_query albums_query 30 req)))
           [category_query albums_query 30 req]"
proof -
  have d: "default_queries (params_term req) \<noteq> []"
    by (simp add: default_queries_def)
  show ?thesis
    by (intro conjI live_viewI)
       (simp_all add: searchDefault_admin_reply [OF assms] search_category_admin_reply [OF assms]
          d searchSongs_def searchArtists_def searchUsers_def searchPlaylists_def
          searchAlbums_def)
qed

theorem admin_search_bypasses_cache_witness:
  "enforceRole example_env (authorization (example_request\<lparr> authorization := Some ''Bearer root'' \<rparr>)) = ''Admin''
   \<and> searchDefault example_env (example_request\<lparr> authorization := Some ''Bearer root'' \<rparr>)
         [''searches?term=hello'' \<mapsto> (JObj [], 2000)]
       = (Sent (Response 200 (JObj [(''data'',
            JObj [(''songs'', JArr [JObj [(''id'', JNum 7), (''title'', JStr ''Hello'')]]),
                  (''artists'', JArr [JObj [(''id'', JNum 7), (''title'', JStr ''Hello'')]]),
                  (''albums'', JArr [JObj [(''id'', JNum 7), (''title'', JStr ''Hello'')]]),
                  (''playlists'', JArr [JObj [(''id'', JNum 7), (''title'', JStr ''Hello'')]]),
                  (''users'', JArr [JObj [(''id'', JNum 7), (''title'', JStr ''Hello'')]])])])),
          [''searches?term=hello'' \<mapsto> (JObj [], 2000)],
          map Db (default_queries ''hello''))
   \<and> searchSongs example_env (example_request\<lparr> authorization := Some ''Bearer root'' \<rparr>)
         [category_key ''songs'' ''hello'' 1 20 \<mapsto> (JArr [], 2000)]
       = (Sent (Response 200 (JObj [(''data'', JArr [JObj [(''id'', JNum 7), (''title'', JStr ''Hello'')]])])),
          [category_key ''songs'' ''hello'' 1 20 \<mapsto> (JArr [], 2000)],
          [Db (songs_query ''hello'' 0 19)])"
proof -
  let ?req = "example_request\<lparr> authorization := Some ''Bearer root'' \<rparr>"
  let ?rows = "QResult (JArr [JObj [(''id'', JNum 7), (''title'', JStr ''Hello'')]]) None"
  have a: "enforceRole example_env (authorization ?req) = ''Admin''"
    by (simp add: example_env_def)
  have t: "params_term ?req = ''hello''"
    by (simp add: example_request_def)
  have q: "category_query songs_query 20 ?req = songs_query ''hello'' 0 19"
    by (simp add: category_query_def example_request_def number_or_def)
  have s: "supabase example_env (songs_query ''hello'' 0 19) = Inr ?rows"
    by (simp add: example_env_def example_store_def songs_query_def text_query_def)
  have m: "map (supabase example_env) (default_queries ''hello'')
             = [Inr ?rows, Inr ?rows, Inr ?rows, Inr ?rows, Inr ?rows]"
    by (simp add: default_queries_def example_env_def example_store_def songs_query_def
          artists_query_def albums_query_def playlists_query_def users_query_def text_query_def)
  have dr: "default_reply [Inr ?rows, Inr ?rows, Inr ?rows, Inr ?rows, Inr ?rows]
      = Sent (Response 200 (JObj [(''data'',
            JObj [(''songs'', JArr [JObj [(''id'', JNum 7), (''title'', JStr ''Hello'')]]),
                  (''artists'', JArr [JObj [(''id'', JNum 7), (''title'', JStr ''Hello'')]]),
                  (''albums'', JArr [JObj [(''id'', JNum 7), (''title'', JStr ''Hello'')]]),
                  (''playlists'', JArr [JObj [(''id'', JNum 7), (''title'', JStr ''Hello'')]]),
                  (''users'', JArr [JObj [(''id'', JNum 7), (''title'', JStr ''Hello'')]])])]))"
    by (simp add: default_reply_def failed_def)
  have cr: "category_reply (Inr ?rows)
      = Sent (Response 200 (JObj [(''data'', JArr [JObj [(''id'', JNum 7), (''title'', JStr ''Hello'')]])]))"
    by (simp add: category_reply_def)
  show ?thesis
    using admin_search_bypasses_cache [OF a,
        of "[''searches?term=hello'' \<mapsto> (JObj [], 2000)]" Map.empty]
      admin_search_bypasses_cache [OF a,
        of "[category_key ''songs'' ''hello'' 1 20 \<mapsto> (JArr [], 2000)]" Map.empty]
      a
    unfolding live_view_def t q s m dr cr by simp
qed

text \<open>
  Claim C5, as stated, fails. Here the artist sub-query resolves with an error while
  the user sub-query's promise rejects: the reply is a 500 whose body is
  \<^verbatim>\<open>{ error: {} }\<close>, the caught rejection, and not the list of the failing sub-queries'
  messages.
\<close>

theorem searchDefault_rejection_counterexample:
  "supabase (example_env\<lparr> supabase := users_rejecting_store \<rparr>) (artists_query ''hello'' 0 29)
     = Inr (QResult JNull (Some (Error ''relation artists does not exist'')))
   \<and> supabase (example_env\<lparr> supabase := users_rejecting_store \<rparr>) (users_query ''hello'' 0 29)
     = Inl (Error ''fetch failed'')
   \<and> searchDefault (example_env\<lparr> supabase := users_rejecting_store \<rparr>) example_request Map.empty
     = (Sent (Response 500 (JObj [(''error'', JObj [])])),
        Map.empty,
        RedisGet ''searches?term=hello'' # map Db (default_queries ''hello''))"
  by (simp add: searchDefault_def Let_def cache_phase_def cache_read_def redis_get_def
        example_env_def example_request_def users_rejecting_store_def artists_down_store_def
        default_queries_def songs_query_def artists_query_def albums_query_def
        playlists_query_def users_query_def text_query_def)

text \<open>
  Claim C5, amended. In a default search whose five sub-queries are issued: when all
  five resolve and any of them resolves with an error, the reply is a 500 whose body is
  \<^verbatim>\<open>{ error: [...] }\<close> with the messages of exactly the failing sub-queries, all of
  them and in order, so of length 1 when exactly one fails; when the promise of any
  sub-query rejects, the reply is a 500 whose body is \<^verbatim>\<open>{ error: {} }\<close>, the caught
  rejection. In both cases the body has no data and nothing is written to the cache.
\<close>

theorem searchDefault_aggregates_errors:
  assumes "cache_phase e c (enforceRole e (authorization req))
             (''searches?term='' @ params_term req) = (None, log)"
  shows "(map (supabase e) (default_queries (params_term req)) = map Inr rs \<and> list_ex failed rs
            \<longrightarrow> searchDefault e req c =
                  (Sent (Response 500 (JObj [(''error'', JArr (map JStr (failing_messages rs)))])),
                   c, log @ map Db (default_queries (params_term req)))
                \<and> length (failing_messages rs) = length (filter failed rs))
       \<and> (list_ex isl (map (supabase e) (default_queries (params_term req)))
            \<longrightarrow> searchDefault e req c =
                  (Sent (Response 500 (JObj [(''error'', JObj [])])),
                   c, log @ map Db (default_queries (params_term req))))"
proof (intro conjI impI)
  assume h: "map (supabase e) (default_queries (params_term req)) = map Inr rs \<and> list_ex failed rs"
  have ne: "filter_Boolean (map error rs) \<noteq> []"
    using h by (simp add: filter_Boolean_empty)
  show "searchDefault e req c =
           (Sent (Response 500 (JObj [(''error'', JArr (map JStr (failing_messages rs)))])),
            c, log @ map Db (default_queries (params_term req)))"
    using assms h ne
    by (simp add: searchDefault_def Let_def promise_all_resolved messages_as_json)
  show "length (failing_messages rs) = length (filter failed rs)"
    by (simp add: failing_messages_def)
next
  assume "list_ex isl (map (supabase e) (default_queries (params_term req)))"
  then obtain err where "promise_all (map (supabase e) (default_queries (params_term req))) = Inl err"
    using promise_all_rejected by blast
  then show "searchDefault e req c =
                  (Sent (Response 500 (JObj [(''error'', JObj [])])),
                   c, log @ map Db (default_queries (params_term req)))"
    using assms by (simp add: searchDefault_def Let_def)
qed

theorem searchDefault_aggregates_errors_witness:
  "cache_phase (example_env\<lparr> supabase := artists_down_store \<rparr>) Map.empty
       (enforceRole (example_env\<lparr> supabase := artists_down_store \<rparr>)
          (authorization example_request))
       (''searches?term='' @ params_term example_request)
     = (None, [RedisGet ''searches?term=hello''])
   \<and> list_ex failed
        [QResult (JArr []) None,
         QResult JNull (Some (Error ''relation artists does not exist'')),
         QResult (JArr []) None, QResult (JArr []) None, QResult (JArr []) None]
   \<and> searchDefault (example_env\<lparr> supabase := artists_down_store \<rparr>) example_request Map.empty
     = (Sent (Response 500 (JObj [(''error'', JArr [JStr ''relation artists does not exist''])])),
        Map.empty,
        RedisGet ''searches?term=hello'' # map Db (default_queries ''hello''))
   \<and> list_ex isl (map (supabase (example_env\<lparr> supabase := users_rejecting_store \<rparr>))
        (default_queries (params_term example_request)))
   \<and> searchDefault (example_env\<lparr> supabase := users_rejecting_store \<rparr>) example_request Map.empty
     = (Sent (Response 500 (JObj [(''error'', JObj [])])),
        Map.empty,
        RedisGet ''searches?term=hello'' # map Db (default_queries ''hello''))"
proof -
  let ?e = "example_env\<lparr> supabase := artists_down_store \<rparr>"
  let ?e' = "example_env\<lparr> supabase := users_rejecting_store \<rparr>"
  let ?rs = "[QResult (JArr []) None,
         QResult JNull (Some (Error ''relation artists does not exist'')),
         QResult (JArr []) None, QResult (JArr []) None, QResult (JArr []) None]"
  have p: "cache_phase ?e Map.empty (enforceRole ?e (authorization example_request))
             (''searches?term='' @ params_term example_request)
           = (None, [RedisGet ''searches?term=hello''])"
    by (simp add: cache_phase_def cache_read_def redis_get_def example_env_def example_request_def)
  have p': "cache_phase ?e' Map.empty (enforceRole ?e' (authorization example_request))
             (''searches?term='' @ params_term example_request)
           = (None, [RedisGet ''searches?term=hello''])"
    by (simp add: cache_phase_def cache_read_def redis_get_def example_env_def example_request_def)
  have q: "map (supabase ?e) (default_queries (params_term example_request)) = map Inr ?rs"
    by (simp add: default_queries_def artists_down_store_def example_request_def
          songs_query_def artists_query_def albums_query_def playlists_query_def users_query_def
          text_query_def)
  have f: "list_ex failed ?rs" by (simp add: failed_def)
  have x: "list_ex isl (map (supabase ?e') (default_queries (params_term example_request)))"
    by (simp add: default_queries_def users_rejecting_store_def artists_down_store_def
          example_request_def songs_query_def artists_query_def albums_query_def
          playlists_query_def users_query_def text_query_def)
  have t: "params_term example_request = ''hello''"
    by (simp add: example_request_def)
  show ?thesis
    using searchDefault_aggregates_errors [OF p, of ?rs] searchDefault_aggregates_errors [OF p', of ?rs]
      p q f x
    by (simp add: failing_messages_def failed_def t)
qed

lemma redis_roundtrip:
  assumes "redis_get_error e2 = None" and "redis_set_error e1 = None"
    and "redis_clock e2 < redis_clock e1 + ex"
  shows "redis_get e2 (redis_set e1 c k v ex) k = Inr v"
  using assms by (simp add: redis_get_def redis_set_def)

lemma searchDefault_replays_verbatim:
  assumes user1: "enforceRole e1 (authorization req) \<noteq> ''Admin''"
    and user2: "enforceRole e2 (authorization req) \<noteq> ''Admin''"
    and up: "redis_set_error e1 = None" "redis_get_error e2 = None"
    and fresh: "redis_clock e2 < redis_clock e1 + 300"
    and first: "searchDefault e1 req c = (Sent (Response 200 payload), c1, log1)"
    and written: "list_ex is_cache_effect (tl log1)"
  shows "searchDefault e2 req c1 =
           (Sent (Response 200 payload), c1, [RedisGet (''searches?term='' @ params_term req)])"
proof -
  let ?k = "''searches?term='' @ params_term req"
  obtain r log where ph: "cache_phase e1 c (enforceRole e1 (authorization req)) ?k = (r, log)"
    by (cases "cache_phase e1 c (enforceRole e1 (authorization req)) ?k") auto
  have log: "log = [RedisGet ?k]"
    using ph user1 by (auto simp: cache_phase_def cache_read_def split: sum.splits if_splits)
  show ?thesis
  proof (cases r)
    case (Some x)
    then have "log1 = [RedisGet ?k]"
      using first ph log by (simp add: searchDefault_def Let_def)
    with written show ?thesis by simp
  next
    case None
    have c1: "c1 = redis_set e1 c ?k payload 300"
      using first ph None user1 written log
      by (auto simp: searchDefault_def Let_def no_cache_effect_Db
            split: sum.splits if_splits)
    have "redis_get e2 c1 ?k = Inr payload"
      unfolding c1 using up fresh by (simp add: redis_roundtrip)
    moreover have "truthy payload"
      using first ph None user1 written log
      by (auto simp: searchDefault_def Let_def no_cache_effect_Db default_payload_def
            split: sum.splits if_splits)
    ultimately show ?thesis
      using user2 by (simp add: searchDefault_def Let_def cache_phase_def cache_read_def)
  qed
qed

text \<open>
  Claim C2. The default search replays its miss response verbatim
  (\<open>searchDefault_replays_verbatim\<close>). A per-category search does not: on the miss it
  answers \<^verbatim>\<open>{ data }\<close> and caches the bare \<open>data\<close>, so the hit, served from the cache
  without a store query, answers the bare rows. At the example request the two
  response bodies of \<open>searchSongs\<close> differ.
\<close>

theorem searchSongs_replay_differs:
  "fst (searchSongs example_env example_request Map.empty)
     = Sent (Response 200 (JObj [(''data'', JArr [JObj [(''id'', JNum 7), (''title'', JStr ''Hello'')]])]))
   \<and> fst (searchSongs example_env example_request
            (fst (snd (searchSongs example_env example_request Map.empty))))
     = Sent (Response 200 (JArr [JObj [(''id'', JNum 7), (''title'', JStr ''Hello'')]]))
   \<and> snd (snd (searchSongs example_env example_request
            (fst (snd (searchSongs example_env example_request Map.empty)))))
     = [RedisGet (category_key ''songs'' ''hello'' 1 20)]"
  by (simp add: searchSongs_def search_category_def Let_def cache_phase_def cache_read_def
        redis_get_def redis_set_def example_env_def example_request_def example_store_def
        songs_query_def text_query_def number_or_def)

section \<open>Properties of the cached reads under a cache outage\<close>

text \<open>
  Claim C8, as stated, fails: with the cache store's \<^verbatim>\<open>get\<close> rejecting, the song list
  handler rejects with the cache's error instead of reading the store, while the same
  request with the cache store up is answered from the store.
\<close>

theorem getAllSongs_cache_outage_counterexample:
  "fst (getAllSongs (example_env\<lparr> redis_get_error := Some (Error ''ECONNREFUSED'') \<rparr>)
          example_request Map.empty)
     = Rejected (Error ''ECONNREFUSED'')
   \<and> fst (getAllSongs example_env example_request Map.empty)
     = Sent (Response 200 (JObj [(''data'', JArr [JObj [(''id'', JNum 7), (''title'', JStr ''Hello'')]])]))"
  by (simp add: getAllSongs_def Let_def cache_read_def redis_get_def example_env_def
        example_request_def example_store_def)

lemma cache_read_outage:
  "redis_get_error e = Some err \<Longrightarrow> cache_read e c k = (Some (Rejected err), [RedisGet k])"
  by (simp add: cache_read_def redis_get_def)

lemma redis_get_set_error: "redis_get (e\<lparr> redis_set_error := x \<rparr>) c k = redis_get e c k"
  by (simp add: redis_get_def split: option.split prod.split)

lemma cache_read_set_error: "cache_read (e\<lparr> redis_set_error := x \<rparr>) c k = cache_read e c k"
  by (simp add: cache_read_def redis_get_set_error)

lemma search_category_outage:
  assumes "redis_get_error e = Some err" and "enforceRole e (authorization req) \<noteq> ''Admin''"
  shows "fails_on_cache (search_category cat dl mk) e req c err"
  using assms
  by (simp add: fails_on_cache_def search_category_def Let_def cache_phase_def cache_read_outage)

lemma search_category_set_error:
  "fst (search_category cat dl mk (e\<lparr> redis_set_error := x \<rparr>) req c)
     = fst (search_category cat dl mk e req c)"
  by (simp add: search_category_def Let_def cache_phase_def cache_read_set_error
        split: prod.split option.split sum.split)

lemma searchDefault_set_error:
  "fst (searchDefault (e\<lparr> redis_set_error := x \<rparr>) req c) = fst (searchDefault e req c)"
  by (simp add: searchDefault_def Let_def cache_phase_def cache_read_set_error
        split: prod.split option.split sum.split)

lemma getAllSongs_set_error:
  "fst (getAllSongs (e\<lparr> redis_set_error := x \<rparr>) req c) = fst (getAllSongs e req c)"
  by (simp add: getAllSongs_def Let_def cache_read_set_error
        split: prod.split option.split sum.split)

lemma getSongByID_set_error:
  "fst (getSongByID (e\<lparr> redis_set_error := x \<rparr>) req c) = fst (getSongByID e req c)"
  by (simp add: getSongByID_def Let_def cache_read_set_error
        split: prod.split option.split sum.split)

text \<open>
  Claim C8, amended. No handler catches a cache error. While the cache store's \<^verbatim>\<open>get\<close>
  rejects, every handler that reads the cache (song list, song by id, and the search
  handlers for a caller who is not Admin) rejects with the cache's error after the read
  alone: it sends no response and issues no store query. A failure of the cache
  store's \<^verbatim>\<open>set\<close>, which no handler awaits, never changes the handler's reply.
\<close>

theorem cache_get_failure_rejects:
  assumes "redis_get_error e = Some err"
  shows "fails_on_cache getAllSongs e req c err
       \<and> fails_on_cache getSongByID e req c err
       \<and> (enforceRole e (authorization req) \<noteq> ''Admin'' \<longrightarrow>
            fails_on_cache searchDefault e req c err
          \<and> fails_on_cache searchSongs e req c err
          \<and> fails_on_cache searchArtists e req c err
          \<and> fails_on_cache searchUsers e req c err
          \<and> fails_on_cache searchPlaylists e req c err
          \<and> fails_on_cache searchAlbums e req c err)
       \<and> fst (getAllSongs (e'\<lparr> redis_set_error := x \<rparr>) req c) = fst (getAllSongs e' req c)
       \<and> fst (getSongByID (e'\<lparr> redis_set_error := x \<rparr>) req c) = fst (getSongByID e' req c)
       \<and> fst (searchDefault (e'\<lparr> redis_set_error := x \<rparr>) req c) = fst (searchDefault e' req c)
       \<and> fst (searchSongs (e'\<lparr> redis_set_error := x \<rparr>) req c) = fst (searchSongs e' req c)
       \<and> fst (searchArtists (e'\<lparr> redis_set_error := x \<rparr>) req c) = fst (searchArtists e' req c)
       \<and> fst (searchUsers (e'\<lparr> redis_set_error := x \<rparr>) req c) = fst (searchUsers e' req c)
       \<and> fst (searchPlaylists (e'\<lparr> redis_set_error := x \<rparr>) req c) = fst (searchPlaylists e' req c)
       \<and> fst (searchAlbums (e'\<lparr> redis_set_error := x \<rparr>) req c) = fst (searchAlbums e' req c)"
proof -
  have a: "fails_on_cache getAllSongs e req c err"
    using assms by (simp add: fails_on_cache_def getAllSongs_def Let_def cache_read_outage)
  have b: "fails_on_cache getSongByID e req c err"
    using assms by (simp add: fails_on_cache_def getSongByID_def Let_def cache_read_outage)
  have d: "enforceRole e (authorization req) \<noteq> ''Admin'' \<Longrightarrow> fails_on_cache searchDefault e req c err"
    using assms
    by (simp add: fails_on_cache_def searchDefault_def Let_def cache_phase_def cache_read_outage)
  show ?thesis
    using a b d search_category_outage [OF assms]
    by (simp add: searchSongs_def searchArtists_def searchUsers_def searchPlaylists_def
          searchAlbums_def search_category_set_error searchDefault_set_error
          getAllSongs_set_error getSongByID_set_error)
qed

theorem cache_get_failure_rejects_witness:
  "redis_get_error (example_env\<lparr> redis_get_error := Some (Error ''ECONNREFUSED'') \<rparr>)
     = Some (Error ''ECONNREFUSED'')
   \<and> enforceRole (example_env\<lparr> redis_get_error := Some (Error ''ECONNREFUSED'') \<rparr>)
        (authorization example_request) \<noteq> ''Admin''
   \<and> fails_on_cache getAllSongs (example_env\<lparr> redis_get_error := Some (Error ''ECONNREFUSED'') \<rparr>)
        example_request Map.empty (Error ''ECONNREFUSED'')
   \<and> fails_on_cache searchDefault (example_env\<lparr> redis_get_error := Some (Error ''ECONNREFUSED'') \<rparr>)
        example_request Map.empty (Error ''ECONNREFUSED'')
   \<and> fails_on_cache searchSongs (example_env\<lparr> redis_get_error := Some (Error ''ECONNREFUSED'') \<rparr>)
        example_request Map.empty (Error ''ECONNREFUSED'')"
proof -
  let ?e = "example_env\<lparr> redis_get_error := Some (Error ''ECONNREFUSED'') \<rparr>"
  have g: "redis_get_error ?e = Some (Error ''ECONNREFUSED'')" by simp
  have u: "enforceRole ?e (authorization example_request) \<noteq> ''Admin''"
    by (simp add: example_env_def example_request_def)
  show ?thesis
    using cache_get_failure_rejects [OF g, of example_request Map.empty] g u by simp
qed

section \<open>Properties of the song and artist handlers\<close>

subsection \<open>Update payloads\<close>

text \<open>
  Claim C3, as stated, fails. A body that supplies \<open>views\<close> with the value 0 gives
  \<open>updateSong\<close> an empty payload: the supplied field is not in it. A body that supplies
  only \<open>description\<close> gives \<open>updateArtist\<close> a payload with the key \<open>name\<close> as well,
  holding \<^verbatim>\<open>undefined\<close>.
\<close>

theorem update_payload_counterexample:
  "supplied [(''views'', JNum 0)] ''views''
   \<and> updateSong_payload [(''views'', JNum 0)] = []
   \<and> \<not> supplied [(''description'', JStr ''x'')] ''name''
   \<and> updateArtist_payload [(''description'', JStr ''x'')]
       = [(''name'', JUndefined), (''description'', JStr ''x'')]"
  by (simp add: supplied_def updateSong_payload_def updateArtist_payload_def spread_if_def field_def)

lemma map_of_spread_if:
  "map_of (spread_if k v @ rest) k' =
     (if k' = k \<and> truthy v then Some v else map_of rest k')"
  by (simp add: spread_if_def)

lemma updateSong_payload_entries:
  "map_of (updateSong_payload b) k =
     (if k \<in> set song_columns \<and> truthy (field b k) then Some (field b k) else None)"
  unfolding updateSong_payload_def song_columns_def
  by (simp only: map_of_spread_if map_of_spread_if [where rest = "[]", simplified]) auto

lemma updateArtist_payload_entries:
  "map_of (updateArtist_payload b) k =
     (if k = ''name'' then Some (field b ''name'')
      else if k \<in> set artist_columns \<and> truthy (field b k) then Some (field b k) else None)"
  unfolding updateArtist_payload_def artist_columns_def
  by (auto simp del: map_of_append
        simp add: map_of_spread_if map_of_spread_if [where rest = "[]", simplified])

lemma field_omitted: "\<not> supplied b k \<Longrightarrow> field b k = JUndefined"
  by (simp add: supplied_def field_def)

text \<open>
  Claim C3, amended. The payload \<open>updateSong\<close> sends to the store holds exactly the
  fields, among the seven columns it reads, that the body supplies with a truthy value;
  a field supplied with a falsy value (0, the empty string, false, null) is left out
  like an omitted one. The payload of \<open>updateArtist\<close> holds \<open>description\<close>,
  \<open>avatarurl\<close> and \<open>country\<close> under the same rule, and always the key \<open>name\<close>, with
  the value \<^verbatim>\<open>undefined\<close> when \<open>name\<close> is omitted. So no omitted field carries a value
  in the payload. The payload is the one in the update query each handler issues first.
\<close>

theorem update_payload_sparse:
  "map_of (updateSong_payload b) k =
     (if k \<in> set song_columns \<and> truthy (field b k) then Some (field b k) else None)
   \<and> map_of (updateArtist_payload b) k =
     (if k = ''name'' then Some (field b ''name'')
      else if k \<in> set artist_columns \<and> truthy (field b k) then Some (field b k) else None)
   \<and> (\<not> supplied b k \<longrightarrow>
        map_of (updateSong_payload b) k = None
        \<and> map_of (updateArtist_payload b) k = (if k = ''name'' then Some JUndefined else None))
   \<and> (\<exists>rest. snd (updateSong e req)
          = Db (update_query ''songs'' (updateSong_payload (req_body req)) (params_id req)) # rest)
   \<and> (\<exists>rest. snd (updateArtist e req)
          = Db (update_query ''artists'' (updateArtist_payload (req_body req)) (params_id req)) # rest)"
proof -
  have s: "\<exists>rest. snd (updateSong e req)
          = Db (update_query ''songs'' (updateSong_payload (req_body req)) (params_id req)) # rest"
    by (simp add: updateSong_def update_handler_def Let_def error_500_def
          split: sum.split option.split)
  have a: "\<exists>rest. snd (updateArtist e req)
          = Db (update_query ''artists'' (updateArtist_payload (req_body req)) (params_id req)) # rest"
    by (simp add: updateArtist_def update_handler_def Let_def error_500_def
          split: sum.split option.split)
  have o: "\<not> supplied b k \<Longrightarrow> \<not> truthy (field b k)"
    by (simp add: field_omitted)
  show ?thesis
    using s a o
    by (simp add: updateSong_payload_entries updateArtist_payload_entries field_omitted)
qed

theorem update_payload_sparse_witness:
  "\<not> supplied [(''description'', JStr ''x'')] ''title''
   \<and> map_of (updateSong_payload [(''description'', JStr ''x'')]) ''title'' = None
   \<and> map_of (updateSong_payload [(''description'', JStr ''x'')]) ''description'' = Some (JStr ''x'')
   \<and> map_of (updateArtist_payload [(''description'', JStr ''x'')]) ''country'' = None"
proof -
  have n: "\<not> supplied [(''description'', JStr ''x'')] ''title''"
    by (simp add: supplied_def)
  have f: "field [(''description'', JStr ''x'')] ''description'' = JStr ''x''"
    by (simp add: field_def)
  have g: "field [(''description'', JStr ''x'')] ''country'' = JUndefined"
    by (simp add: field_def)
  show ?thesis
    using update_payload_sparse [of "[(''description'', JStr ''x'')]" "''title''"]
      update_payload_sparse [of "[(''description'', JStr ''x'')]" "''description''"]
      update_payload_sparse [of "[(''description'', JStr ''x'')]" "''country''"]
      n f g
    by (simp add: song_columns_def artist_columns_def field_def)
qed

subsection \<open>Artist links of a created song\<close>

lemma featured_rows:
  "0 < n \<Longrightarrow>
   map (\<lambda>(index, a). link_row sid a index) (enumerate n xs) = map (artist_link sid ''Featured'') xs"
  by (induction xs arbitrary: n) (simp_all add: link_row_def artist_link_def)

lemma link_rows_in_order:
  "map (\<lambda>(index, a). link_row sid a index) (enumerate 0 (a0 # rest))
     = artist_link sid ''Primary'' a0 # map (artist_link sid ''Featured'') rest"
  using featured_rows [of "Suc 0" sid rest] by (simp add: link_row_def artist_link_def)

lemma inserted_rows_links:
  "inserted_rows tbl (map Db (map (\<lambda>p. insert_query tbl (f p) cols single) ps) @ tail)
     = map f ps @ inserted_rows tbl tail"
  by (induction ps) (simp_all add: insert_query_def)

lemma inserted_rows_other_table:
  "tbl' \<noteq> tbl \<Longrightarrow>
   inserted_rows tbl (Db (insert_query tbl' row cols single) # log) = inserted_rows tbl log"
  by (simp add: insert_query_def)

lemma inserted_rows_upload: "inserted_rows tbl (upload_if_file req kind i) = []"
  by (simp add: upload_if_file_def split: option.split)

lemma all_accepted_links:
  assumes "map (supabase e) qs = map Inr results"
    and "filter_Boolean (map error results) = []"
  shows "all_accepted e (map Db qs @ upload_if_file req kind i)"
  using assms
proof (induction qs arbitrary: results)
  case Nil
  then show ?case by (simp add: upload_if_file_def split: option.split)
next
  case (Cons q qs)
  then obtain r rs where r: "results = r # rs" by (cases results) auto
  with Cons.prems have "supabase e q = Inr r" "map (supabase e) qs = map Inr rs" by simp_all
  moreover from Cons.prems(2) r have "error r = None" "filter_Boolean (map error rs) = []"
    by (cases "error r"; simp)+
  ultimately show ?case using Cons.IH [of rs] by (simp add: accepted_def)
qed

lemma no_primary_among_featured:
  "filter (\<lambda>row. relation_of row = JStr ''Primary'') (map (artist_link sid ''Featured'') xs) = []"
  by (induction xs) (simp_all add: relation_of_def artist_link_def field_def)

text \<open>
  Claim C6. When \<open>addSong\<close> succeeds (answers 201) for a body whose artist list is
  \<open>a0, a1, ..., an\<close>, the rows it inserts into the link table are, in order, one row for
  \<open>a0\<close> with relation Primary and one row with relation Featured for each of the
  others, all for the id of the created song and all accepted by the store. Exactly
  one inserted row is Primary, and it is the row of the first artist of the list as
  supplied: a list with another artist first makes that artist the Primary one.
\<close>

theorem addSong_links_first_artist_primary:
  assumes "addSong e req = (Sent (Response 201 msg), log)"
    and "field (req_body req) ''artists'' = JArr (a0 # rest)"
  shows "\<exists>r sid.
           supabase e (insert_query ''songs'' (addSong_payload (req_body req)) ''id'' True) = Inr r
           \<and> get_prop (data r) ''id'' = Inr sid
           \<and> inserted_rows ''artistssongs'' log
               = artist_link sid ''Primary'' a0 # map (artist_link sid ''Featured'') rest
           \<and> filter (\<lambda>row. relation_of row = JStr ''Primary'') (inserted_rows ''artistssongs'' log)
               = [artist_link sid ''Primary'' a0]
           \<and> all_accepted e log"
proof -
  let ?ins = "insert_query ''songs'' (addSong_payload (req_body req)) ''id'' True"
  have t: "truthy (field (req_body req) ''title'')"
    using assms(1) by (auto simp: addSong_def Let_def split: if_splits)
  obtain r where r: "supabase e ?ins = Inr r" and ok: "error r = None"
    using assms(1) t
    by (auto simp: addSong_def Let_def error_500_def split: sum.splits option.splits)
  have m: "array_map_target (field (req_body req) ''artists'') = Inr (a0 # rest)"
    using assms(2) by (simp add: array_map_target_def)
  obtain lqs where lqs: "link_queries (data r) (a0 # rest) = Inr lqs"
    using assms(1) t r ok m
    by (auto simp: addSong_def Let_def split: sum.splits)
  then obtain sid where sid: "get_prop (data r) ''id'' = Inr sid"
    and lqs_eq: "lqs = map (\<lambda>(index, a). insert_query ''artistssongs'' (link_row sid a index) [] False)
                      (enumerate 0 (a0 # rest))"
    by (auto simp: link_queries_def split: sum.splits)
  obtain results where res: "promise_all (map (supabase e) lqs) = Inr results"
    using assms(1) t r ok m lqs
    by (auto simp: addSong_def Let_def split: sum.splits)
  have noerr: "filter_Boolean (map error results) = []"
    and log: "log = Db ?ins # map Db lqs @ upload_if_file req ''songs'' sid"
    using assms(1) t r ok m lqs res sid
    by (auto simp: addSong_def Let_def split: if_splits)
  have lqs_map: "lqs = map (\<lambda>p. insert_query ''artistssongs'' (case p of (index, a) \<Rightarrow> link_row sid a index) [] False)
                      (enumerate 0 (a0 # rest))"
    unfolding lqs_eq by (rule map_cong) auto
  have rows: "inserted_rows ''artistssongs'' log
               = artist_link sid ''Primary'' a0 # map (artist_link sid ''Featured'') rest"
  proof -
    have "inserted_rows ''artistssongs'' log
            = map (\<lambda>(index, a). link_row sid a index) (enumerate 0 (a0 # rest))
              @ inserted_rows ''artistssongs'' (upload_if_file req ''songs'' sid)"
      unfolding log lqs_map
      by (subst inserted_rows_other_table, simp) (rule inserted_rows_links)
    then show ?thesis
      by (simp only: link_rows_in_order inserted_rows_upload append_Nil2)
  qed
  have prim: "filter (\<lambda>row. relation_of row = JStr ''Primary'') (inserted_rows ''artistssongs'' log)
               = [artist_link sid ''Primary'' a0]"
    unfolding rows
    by (simp add: no_primary_among_featured) (simp add: relation_of_def artist_link_def field_def)
  have acc: "all_accepted e log"
    unfolding log
    using all_accepted_links [OF promise_all_Inr [OF res] noerr, of req "''songs''" sid] r ok
    by (simp add: accepted_def)
  show ?thesis using r sid rows prim acc by blast
qed

lemma addSong_example:
  "addSong example_env (create_request [a, b, c])
     = (Sent (Response 201 (JObj [(''message'', JStr ''Song Hello created'')])),
        [Db (insert_query ''songs'' [(''title'', JStr ''Hello'')] ''id'' True),
         Db (insert_query ''artistssongs'' (link_row (JNum 7) a 0) [] False),
         Db (insert_query ''artistssongs'' (link_row (JNum 7) b 1) [] False),
         Db (insert_query ''artistssongs'' (link_row (JNum 7) c 2) [] False)])"
proof -
  have b: "req_body (create_request [a, b, c]) = [(''title'', JStr ''Hello''), (''artists'', JArr [a, b, c])]"
    and f: "req_file (create_request [a, b, c]) = None"
    by (simp_all add: create_request_def example_request_def)
  have s: "supabase example_env (insert_query ''songs'' [(''title'', JStr ''Hello'')] ''id'' True)
             = Inr (QResult (JObj [(''id'', JNum 7), (''title'', JStr ''Hello'')]) None)"
    by (simp add: example_env_def example_store_def insert_query_def)
  have l: "\<And>row. supabase example_env (insert_query ''artistssongs'' row [] False)
             = Inr (QResult (JObj [(''artist'', JObj [(''name'', JStr ''Adele'')]),
                               (''song'', JObj [(''title'', JStr ''Hello'')])]) None)"
    by (simp add: example_env_def example_store_def insert_query_def)
  have p: "addSong_payload [(''title'', JStr ''Hello''), (''artists'', JArr [a, b, c])]
             = [(''title'', JStr ''Hello'')]"
    by (simp add: addSong_payload_def spread_if_def field_def)
  have e: "enumerate 0 [a, b, c] = [(0, a), (1, b), (2, c)]"
    by (simp add: enumerate_eq_zip upt_rec)
  show ?thesis
    unfolding addSong_def b f
    by (simp add: Let_def p s l e field_def array_map_target_def link_queries_def
          upload_if_file_def f del: enumerate_simps)
qed

theorem addSong_links_first_artist_primary_witness:
  "addSong example_env (create_request [JStr ''A'', JStr ''B'', JStr ''C''])
     = (Sent (Response 201 (JObj [(''message'', JStr ''Song Hello created'')])),
        snd (addSong example_env (create_request [JStr ''A'', JStr ''B'', JStr ''C''])))
   \<and> field (req_body (create_request [JStr ''A'', JStr ''B'', JStr ''C''])) ''artists''
       = JArr [JStr ''A'', JStr ''B'', JStr ''C'']
   \<and> inserted_rows ''artistssongs''
        (snd (addSong example_env (create_request [JStr ''A'', JStr ''B'', JStr ''C''])))
       = [artist_link (JNum 7) ''Primary'' (JStr ''A''),
          artist_link (JNum 7) ''Featured'' (JStr ''B''),
          artist_link (JNum 7) ''Featured'' (JStr ''C'')]
   \<and> inserted_rows ''artistssongs''
        (snd (addSong example_env (create_request [JStr ''B'', JStr ''A'', JStr ''C''])))
       = [artist_link (JNum 7) ''Primary'' (JStr ''B''),
          artist_link (JNum 7) ''Featured'' (JStr ''A''),
          artist_link (JNum 7) ''Featured'' (JStr ''C'')]"
proof -
  let ?req = "create_request [JStr ''A'', JStr ''B'', JStr ''C'']"
  let ?req' = "create_request [JStr ''B'', JStr ''A'', JStr ''C'']"
  have h: "addSong example_env ?req
     = (Sent (Response 201 (JObj [(''message'', JStr ''Song Hello created'')])),
        snd (addSong example_env ?req))"
    by (simp add: addSong_example)
  have h': "addSong example_env ?req'
     = (Sent (Response 201 (JObj [(''message'', JStr ''Song Hello created'')])),
        snd (addSong example_env ?req'))"
    by (simp add: addSong_example)
  have a: "field (req_body ?req) ''artists'' = JArr [JStr ''A'', JStr ''B'', JStr ''C'']"
    by (simp add: create_request_def field_def)
  have a': "field (req_body ?req') ''artists'' = JArr [JStr ''B'', JStr ''A'', JStr ''C'']"
    by (simp add: create_request_def field_def)
  have s: "supabase example_env (insert_query ''songs'' (addSong_payload (req_body ?req)) ''id'' True)
             = Inr (QResult (JObj [(''id'', JNum 7), (''title'', JStr ''Hello'')]) None)"
    by (simp add: example_env_def example_store_def insert_query_def)
  have s': "supabase example_env (insert_query ''songs'' (addSong_payload (req_body ?req')) ''id'' True)
             = Inr (QResult (JObj [(''id'', JNum 7), (''title'', JStr ''Hello'')]) None)"
    by (simp add: example_env_def example_store_def insert_query_def)
  have i: "get_prop (JObj [(''id'', JNum 7), (''title'', JStr ''Hello'')]) ''id'' = Inr (JNum 7)"
    by (simp add: field_def)
  show ?thesis
    using addSong_links_first_artist_primary [OF h a]
      addSong_links_first_artist_primary [OF h' a'] h a s s' i
    by auto
qed

subsection \<open>Deleting a song\<close>

text \<open>
  Claim C9. \<open>deleteSong\<close> answers 202 without awaiting the blob or asset deletion, but
  the blob key it deletes is the title alone with \<^verbatim>\<open>.mp3\<close>, not the
  \<^verbatim>\<open><PrimaryArtistName>/<SongTitle>.mp3\<close> key under which the pre-signed upload URL
  of the same song stores the audio: the handler never reads the Primary artist link.
\<close>

theorem deleteSong_blob_key_differs:
  "deleteSong example_env example_request
     = (Sent (Response 202 (JObj [(''message'', JStr ''Song 7 is being deleted'')])),
        [Db \<lparr> q_table = ''songs'', q_verb = DeleteRows, q_columns = ''title'',
              q_filters = [Eq ''id'' ''7''], q_range = None, q_single = True \<rparr>,
         BlobDelete ''Hello.mp3'',
         CloudinaryDelete ''songs'' ''i-7''])
   \<and> generatePresignedUploadURL example_env example_request
     = (Sent (Response 200 (JObj [(''url'', JStr ''https://blob.example/Adele/Hello.mp3'')])),
        [Db (primary_link_query ''7''), BlobPresign ''Adele/Hello.mp3'' 900])"
  by (simp add: deleteSong_def generatePresignedUploadURL_def presigned_url_def Let_def
        example_env_def example_request_def example_store_def primary_link_query_def field_def)

lemma deleteSong_fire_and_forget:
  "deleteSong (e\<lparr> backblaze_deleteObject := f, cloudinary_delete := g \<rparr>) req = deleteSong e req"
  by (simp add: deleteSong_def Let_def)

lemma deleteSong_key_is_title:
  assumes "BlobDelete k \<in> set (snd (deleteSong e req))"
  shows "\<exists>r title. supabase e \<lparr> q_table = ''songs'', q_verb = DeleteRows, q_columns = ''title'',
              q_filters = [Eq ''id'' (params_id req)], q_range = None, q_single = True \<rparr> = Inr r
           \<and> get_prop (data r) ''title'' = Inr title \<and> k = toString title @ ''.mp3''"
  using assms
  by (auto simp: deleteSong_def Let_def error_500_def split: sum.splits option.splits)

end
